theory Spec2Isabelle
  imports Complex_Main "HOL-Library.Sublist" "HOL-Library.Multiset"
begin

section \<open>JavaScript strings\<close>

text \<open>
  A JavaScript string is a sequence of UTF-16 code units. The model keeps the code units
  below 256 (the Latin-1 range), which is what a \<^typ>\<open>char\<close> holds; \<^typ>\<open>string\<close> is
  \<^typ>\<open>char list\<close>. The character classes below are the ECMAScript ones cut to that range.
\<close>

text \<open>
  \<^verbatim>\<open>\s\<close> of a regular expression and the characters \<^verbatim>\<open>trim()\<close> strips: WhiteSpace and
  LineTerminator, that is TAB, LF, VT, FF, CR, SP and NBSP below 256.
\<close>

definition isWhiteSpace :: "char \<Rightarrow> bool" where
  "isWhiteSpace c =
     (let n = (of_char c :: nat) in (9 \<le> n \<and> n \<le> 13) \<or> n = 32 \<or> n = 160)"

text \<open>\<^verbatim>\<open>\w\<close> of a regular expression without the unicode flag: \<^verbatim>\<open>[A-Za-z0-9_]\<close>.\<close>

definition isWordChar :: "char \<Rightarrow> bool" where
  "isWordChar c =
     (let n = (of_char c :: nat)
      in (65 \<le> n \<and> n \<le> 90) \<or> (97 \<le> n \<and> n \<le> 122) \<or> (48 \<le> n \<and> n \<le> 57) \<or> n = 95)"

text \<open>
  \<^verbatim>\<open>toLowerCase()\<close> on one code unit below 256: \<^verbatim>\<open>A-Z\<close> and the accented capitals
  U+00C0 to U+00DE (the multiplication sign U+00D7 apart) move up by 32.
\<close>

definition lowerChar :: "char \<Rightarrow> char" where
  "lowerChar c =
     (let n = (of_char c :: nat)
      in if (65 \<le> n \<and> n \<le> 90) \<or> (192 \<le> n \<and> n \<le> 222 \<and> n \<noteq> 215)
         then char_of (n + 32) else c)"

definition toLowerCase :: "string \<Rightarrow> string" where
  "toLowerCase s = map lowerChar s"

text \<open>\<^verbatim>\<open>s.trim()\<close>: white space is dropped at both ends.\<close>

definition trim :: "string \<Rightarrow> string" where
  "trim s = rev (dropWhile isWhiteSpace (rev (dropWhile isWhiteSpace s)))"

text \<open>
  \<^verbatim>\<open>s.startsWith(p)\<close>: false when \<^verbatim>\<open>p\<close> is longer than \<^verbatim>\<open>s\<close>, otherwise the first
  \<^verbatim>\<open>p.length\<close> code units of \<^verbatim>\<open>s\<close> are compared with \<^verbatim>\<open>p\<close>.
\<close>

definition startsWith :: "string \<Rightarrow> string \<Rightarrow> bool" where
  "startsWith s p = (length p \<le> length s \<and> take (length p) s = p)"

text \<open>\<^verbatim>\<open>s.includes(p)\<close>: \<^verbatim>\<open>p\<close> occurs in \<^verbatim>\<open>s\<close> at some position.\<close>

fun includesStr :: "string \<Rightarrow> string \<Rightarrow> bool" where
  "includesStr [] p = (p = [])"
| "includesStr (c # cs) p = (startsWith (c # cs) p \<or> includesStr cs p)"

text \<open>\<^verbatim>\<open>parts.join(' ')\<close>.\<close>

fun join :: "string list \<Rightarrow> string" where
  "join [] = []"
| "join [p] = p"
| "join (p # q # ps) = p @ CHR '' '' # join (q # ps)"

text \<open>
  \<^verbatim>\<open>s.replace(/[^\w\s]/g, ' ')\<close>: every code unit that is neither a word character nor
  white space becomes a space.
\<close>

definition replaceSpecial :: "string \<Rightarrow> string" where
  "replaceSpecial s = map (\<lambda>c. if isWordChar c \<or> isWhiteSpace c then c else CHR '' '') s"

text \<open>\<^verbatim>\<open>s.replace(/\s+/g, ' ')\<close>: every maximal run of white space becomes one space.\<close>

function replaceSpaces :: "string \<Rightarrow> string" where
  "replaceSpaces [] = []"
| "replaceSpaces (c # cs) =
     (if isWhiteSpace c then CHR '' '' # replaceSpaces (dropWhile isWhiteSpace cs)
      else c # replaceSpaces cs)"
  by pat_completeness auto
termination
  by (relation "measure length") (auto simp: length_dropWhile_le less_Suc_eq_le)

section \<open>API key manager (src/services/apiKeyManager.ts)\<close>

definition validateOpenAIKey :: "string \<Rightarrow> bool" where
  "validateOpenAIKey key = startsWith (trim key) ''sk-''"

definition validateAnthropicKey :: "string \<Rightarrow> bool" where
  "validateAnthropicKey key = startsWith (trim key) ''sk-ant-''"

section \<open>Data model (src/types/index.ts)\<close>

datatype RecordingStatus =
  S_recorded | S_transcribing | S_transcribed | S_generating_notes | S_complete | S_error

datatype Priority = P_low | P_medium | P_high

text \<open>
  A \<^verbatim>\<open>Blob\<close>, by the two properties the code reads: its size in bytes and its MIME
  type. The bytes themselves are never inspected by the code.
\<close>

record Blob =
  blob_size :: nat
  blob_type :: string

text \<open>A segment's times are JavaScript numbers; no operation of the code computes on them.\<close>

record TranscriptSegment =
  seg_text :: string
  seg_start :: real
  seg_end :: real

text \<open>
  The interface \<^verbatim>\<open>Recording\<close>. An optional property \<^verbatim>\<open>p?: T\<close> is an option, \<open>None\<close>
  for \<^verbatim>\<open>undefined\<close>. A \<^verbatim>\<open>Date\<close> is its time value, the milliseconds since the epoch.
  The primary key \<^verbatim>\<open>id\<close> is called \<open>id_key\<close> here, the property \<^verbatim>\<open>notes\<close> \<open>notesText\<close>.
\<close>

record Recording =
  id_key :: "nat option"
  filename :: string
  customName :: "string option"
  date :: int
  duration :: int
  audioBlob :: Blob
  transcript :: "string option"
  notesText :: "string option"
  status :: RecordingStatus
  errorMessage :: "string option"
  mimeType :: string
  tags :: "string list option"
  category :: "string option"
  subject :: "string option"
  searchText :: "string option"
  priority :: "Priority option"
  isStudied :: "bool option"
  lastModified :: "int option"
  exportedAt :: "int option"
  transcriptSegments :: "TranscriptSegment list option"

text \<open>
  \<^verbatim>\<open>Partial<Omit<Recording, 'id'>>\<close>, the argument of an update: every property may be
  absent (\<open>None\<close>). For an optional property of \<^verbatim>\<open>Recording\<close> a given value may itself
  be \<^verbatim>\<open>undefined\<close> (\<open>Some None\<close>), which clears the property.
\<close>

record Updates =
  u_filename :: "string option"
  u_customName :: "string option option"
  u_date :: "int option"
  u_duration :: "int option"
  u_audioBlob :: "Blob option"
  u_transcript :: "string option option"
  u_notesText :: "string option option"
  u_status :: "RecordingStatus option"
  u_errorMessage :: "string option option"
  u_mimeType :: "string option"
  u_tags :: "string list option option"
  u_category :: "string option option"
  u_subject :: "string option option"
  u_searchText :: "string option option"
  u_priority :: "Priority option option"
  u_isStudied :: "bool option option"
  u_lastModified :: "int option option"
  u_exportedAt :: "int option option"
  u_transcriptSegments :: "TranscriptSegment list option option"

definition noUpdates :: Updates where
  "noUpdates =
     \<lparr>u_filename = None, u_customName = None, u_date = None, u_duration = None,
      u_audioBlob = None, u_transcript = None, u_notesText = None, u_status = None,
      u_errorMessage = None, u_mimeType = None, u_tags = None, u_category = None,
      u_subject = None, u_searchText = None, u_priority = None, u_isStudied = None,
      u_lastModified = None, u_exportedAt = None, u_transcriptSegments = None\<rparr>"

record FilterOptions =
  f_searchQuery :: "string option"
  f_tags :: "string list option"
  f_category :: "string option"
  f_status :: "RecordingStatus option"
  f_isStudied :: "bool option"
  f_priority :: "Priority option"
  f_dateFrom :: "int option"
  f_dateTo :: "int option"

section \<open>Values thrown\<close>

text \<open>
  What a \<^verbatim>\<open>throw\<close> carries, by the classes the \<^verbatim>\<open>catch\<close> blocks tell apart: an
  \<^verbatim>\<open>APIError\<close> of a provider's SDK with its HTTP status (absent for a connection error)
  and message, a \<^verbatim>\<open>TypeError\<close>, any other \<^verbatim>\<open>Error\<close> with its message, and a value
  that is no \<^verbatim>\<open>Error\<close> at all.
\<close>

datatype thrown =
  JsError string
| APIError "nat option" string
| TypeError string
| NonError

text \<open>\<^verbatim>\<open>error instanceof Error\<close> and \<^verbatim>\<open>error.message\<close>.\<close>

fun instanceofError :: "thrown \<Rightarrow> bool" where
  "instanceofError NonError = False"
| "instanceofError _ = True"

fun message :: "thrown \<Rightarrow> string" where
  "message (JsError m) = m"
| "message (APIError s m) = m"
| "message (TypeError m) = m"
| "message NonError = []"

section \<open>The Dexie table of recordings\<close>

text \<open>
  The table \<^verbatim>\<open>db.recordings\<close> (schema \<^verbatim>\<open>++id, date, status, ...\<close>), as far as the
  code uses it: the stored objects in the order of their primary key, the key
  generator's next key, and whether IndexedDB is out of order, in which case every
  operation on the table rejects. The library's operations are modelled after their
  documentation; \<^verbatim>\<open>update\<close> resolves to the number of updated records, 1 or 0 (as the
  doc comment of \<^verbatim>\<open>updateRecording\<close> says), and never rejects for an unknown key.
\<close>

record Database =
  recordings :: "Recording list"
  nextId :: nat
  failing :: bool

datatype DexieError = DexieError

text \<open>What an update does to one stored object: the given properties are set.\<close>

definition applyUpdates :: "Updates \<Rightarrow> Recording \<Rightarrow> Recording" where
  "applyUpdates u r =
     r\<lparr>filename := case_option (filename r) (\<lambda>v. v) (u_filename u),
       customName := case_option (customName r) (\<lambda>v. v) (u_customName u),
       date := case_option (date r) (\<lambda>v. v) (u_date u),
       duration := case_option (duration r) (\<lambda>v. v) (u_duration u),
       audioBlob := case_option (audioBlob r) (\<lambda>v. v) (u_audioBlob u),
       transcript := case_option (transcript r) (\<lambda>v. v) (u_transcript u),
       notesText := case_option (notesText r) (\<lambda>v. v) (u_notesText u),
       status := case_option (status r) (\<lambda>v. v) (u_status u),
       errorMessage := case_option (errorMessage r) (\<lambda>v. v) (u_errorMessage u),
       mimeType := case_option (mimeType r) (\<lambda>v. v) (u_mimeType u),
       tags := case_option (tags r) (\<lambda>v. v) (u_tags u),
       category := case_option (category r) (\<lambda>v. v) (u_category u),
       subject := case_option (subject r) (\<lambda>v. v) (u_subject u),
       searchText := case_option (searchText r) (\<lambda>v. v) (u_searchText u),
       priority := case_option (priority r) (\<lambda>v. v) (u_priority u),
       isStudied := case_option (isStudied r) (\<lambda>v. v) (u_isStudied u),
       lastModified := case_option (lastModified r) (\<lambda>v. v) (u_lastModified u),
       exportedAt := case_option (exportedAt r) (\<lambda>v. v) (u_exportedAt u),
       transcriptSegments :=
         case_option (transcriptSegments r) (\<lambda>v. v) (u_transcriptSegments u)\<rparr>"

text \<open>\<^verbatim>\<open>table.add(obj)\<close>: the key generator gives the object its key.\<close>

definition table_add :: "Database \<Rightarrow> Recording \<Rightarrow> (DexieError + nat) \<times> Database" where
  "table_add db r =
     (if failing db then (Inl DexieError, db)
      else (Inr (nextId db),
            db\<lparr>recordings := recordings db @ [r\<lparr>id_key := Some (nextId db)\<rparr>],
               nextId := Suc (nextId db)\<rparr>))"

text \<open>\<^verbatim>\<open>table.get(id)\<close>: the object, or \<^verbatim>\<open>undefined\<close>.\<close>

definition table_get :: "Database \<Rightarrow> nat \<Rightarrow> DexieError + Recording option" where
  "table_get db k =
     (if failing db then Inl DexieError
      else Inr (find (\<lambda>r. id_key r = Some k) (recordings db)))"

text \<open>\<^verbatim>\<open>table.update(id, changes)\<close>.\<close>

definition table_update ::
  "Database \<Rightarrow> nat \<Rightarrow> Updates \<Rightarrow> (DexieError + nat) \<times> Database" where
  "table_update db k u =
     (if failing db then (Inl DexieError, db)
      else (Inr (if list_ex (\<lambda>r. id_key r = Some k) (recordings db) then 1 else 0),
            db\<lparr>recordings :=
                 map (\<lambda>r. if id_key r = Some k then applyUpdates u r else r)
                   (recordings db)\<rparr>))"

text \<open>\<^verbatim>\<open>table.delete(id)\<close>.\<close>

definition table_delete :: "Database \<Rightarrow> nat \<Rightarrow> (DexieError + unit) \<times> Database" where
  "table_delete db k =
     (if failing db then (Inl DexieError, db)
      else (Inr (), db\<lparr>recordings := filter (\<lambda>r. id_key r \<noteq> Some k) (recordings db)\<rparr>))"

text \<open>\<^verbatim>\<open>table.toArray()\<close>: the objects by ascending primary key.\<close>

definition table_toArray :: "Database \<Rightarrow> DexieError + Recording list" where
  "table_toArray db = (if failing db then Inl DexieError else Inr (recordings db))"

text \<open>
  \<^verbatim>\<open>table.orderBy('date').reverse().toArray()\<close>: the index on \<^verbatim>\<open>date\<close> lists the
  objects by ascending date, those of equal date by ascending primary key, and is read
  backwards.
\<close>

definition table_orderByDateReverse :: "Database \<Rightarrow> DexieError + Recording list" where
  "table_orderByDateReverse db =
     (if failing db then Inl DexieError else Inr (rev (sort_key date (recordings db))))"

section \<open>Storage service (src/services/storage.ts)\<close>

text \<open>An optional property is given when it is not \<^verbatim>\<open>undefined\<close>.\<close>

definition given :: "'a option \<Rightarrow> bool" where
  "given x = (case x of None \<Rightarrow> False | Some v \<Rightarrow> True)"

text \<open>\<^verbatim>\<open>x || ''\<close> for an optional string.\<close>

definition orEmpty :: "string option \<Rightarrow> string" where
  "orEmpty x = (case x of None \<Rightarrow> [] | Some s \<Rightarrow> s)"

definition generateSearchText :: "Recording \<Rightarrow> string" where
  "generateSearchText recording =
     (let parts =
        [filename recording, orEmpty (customName recording), orEmpty (transcript recording),
         orEmpty (notesText recording), orEmpty (subject recording),
         orEmpty (category recording)]
        @ (case tags recording of None \<Rightarrow> [] | Some ts \<Rightarrow> ts)
      in trim (replaceSpaces (replaceSpecial (toLowerCase (join parts)))))"

definition saveRecording :: "Database \<Rightarrow> Recording \<Rightarrow> (thrown + nat) \<times> Database" where
  "saveRecording db recording =
     (case table_add db recording of
        (Inr k, db') \<Rightarrow> (Inr k, db')
      | (Inl e, db') \<Rightarrow> (Inl (JsError ''Failed to save recording to database''), db'))"

definition getAllRecordings :: "Database \<Rightarrow> thrown + Recording list" where
  "getAllRecordings db =
     (case table_orderByDateReverse db of
        Inr rs \<Rightarrow> Inr rs
      | Inl e \<Rightarrow> Inl (JsError ''Failed to fetch recordings from database''))"

definition getRecording :: "Database \<Rightarrow> nat \<Rightarrow> thrown + Recording option" where
  "getRecording db k =
     (case table_get db k of
        Inr r \<Rightarrow> Inr r
      | Inl e \<Rightarrow> Inl (JsError ''Failed to fetch recording from database''))"

definition updateRecording ::
  "Database \<Rightarrow> nat \<Rightarrow> Updates \<Rightarrow> (thrown + nat) \<times> Database" where
  "updateRecording db k updates =
     (case table_update db k updates of
        (Inr updated, db') \<Rightarrow> (Inr updated, db')
      | (Inl e, db') \<Rightarrow> (Inl (JsError ''Failed to update recording in database''), db'))"

definition deleteRecording :: "Database \<Rightarrow> nat \<Rightarrow> (thrown + unit) \<times> Database" where
  "deleteRecording db k =
     (case table_delete db k of
        (Inr u, db') \<Rightarrow> (Inr (), db')
      | (Inl e, db') \<Rightarrow> (Inl (JsError ''Failed to delete recording from database''), db'))"

text \<open>\<^verbatim>\<open>recording.searchText || generateSearchText(recording)\<close>.\<close>

definition searchTextOf :: "Recording \<Rightarrow> string" where
  "searchTextOf recording =
     (case searchText recording of
        None \<Rightarrow> generateSearchText recording
      | Some s \<Rightarrow> if s = [] then generateSearchText recording else s)"

text \<open>
  \<^verbatim>\<open>searchRecordings\<close>. The promise of \<^verbatim>\<open>getAllRecordings()\<close> is returned without
  \<^verbatim>\<open>await\<close>, so its rejection is not caught by the \<^verbatim>\<open>catch\<close> block here.
\<close>

definition searchRecordings :: "Database \<Rightarrow> string \<Rightarrow> thrown + Recording list" where
  "searchRecordings db query =
     (if trim query = [] then getAllRecordings db
      else
        (let normalizedQuery = trim (toLowerCase query)
         in case table_toArray db of
              Inl e \<Rightarrow> Inl (JsError ''Failed to search recordings'')
            | Inr allRecordings \<Rightarrow>
                Inr (filter (\<lambda>recording. includesStr (searchTextOf recording) normalizedQuery)
                       allRecordings)))"

text \<open>
  \<^verbatim>\<open>filterRecordings\<close>: one filter after the other, each applied when its criterion is
  truthy (\<^verbatim>\<open>isStudied\<close>: when it is not \<^verbatim>\<open>undefined\<close>), then a sort by descending date
  (\<^verbatim>\<open>Array.prototype.sort\<close> is stable).
\<close>

definition bySearchQuery :: "FilterOptions \<Rightarrow> Recording list \<Rightarrow> Recording list" where
  "bySearchQuery filters rs =
     (case f_searchQuery filters of
        None \<Rightarrow> rs
      | Some q \<Rightarrow>
          if trim q = [] then rs
          else filter (\<lambda>rec. includesStr (searchTextOf rec) (trim (toLowerCase q))) rs)"

definition byTags :: "FilterOptions \<Rightarrow> Recording list \<Rightarrow> Recording list" where
  "byTags filters rs =
     (case f_tags filters of
        None \<Rightarrow> rs
      | Some fts \<Rightarrow>
          if length fts > 0
          then filter (\<lambda>rec. case tags rec of
                               None \<Rightarrow> False
                             | Some ts \<Rightarrow> list_ex (\<lambda>tag. tag \<in> set fts) ts) rs
          else rs)"

definition byCategory :: "FilterOptions \<Rightarrow> Recording list \<Rightarrow> Recording list" where
  "byCategory filters rs =
     (case f_category filters of
        None \<Rightarrow> rs
      | Some c \<Rightarrow> if c = [] then rs else filter (\<lambda>rec. category rec = Some c) rs)"

definition byStatus :: "FilterOptions \<Rightarrow> Recording list \<Rightarrow> Recording list" where
  "byStatus filters rs =
     (case f_status filters of
        None \<Rightarrow> rs
      | Some s \<Rightarrow> filter (\<lambda>rec. status rec = s) rs)"

definition byIsStudied :: "FilterOptions \<Rightarrow> Recording list \<Rightarrow> Recording list" where
  "byIsStudied filters rs =
     (case f_isStudied filters of
        None \<Rightarrow> rs
      | Some b \<Rightarrow> filter (\<lambda>rec. isStudied rec = Some b) rs)"

definition byPriority :: "FilterOptions \<Rightarrow> Recording list \<Rightarrow> Recording list" where
  "byPriority filters rs =
     (case f_priority filters of
        None \<Rightarrow> rs
      | Some p \<Rightarrow> filter (\<lambda>rec. priority rec = Some p) rs)"

definition byDateRange :: "FilterOptions \<Rightarrow> Recording list \<Rightarrow> Recording list" where
  "byDateRange filters rs =
     (if given (f_dateFrom filters) \<or> given (f_dateTo filters)
      then filter (\<lambda>rec.
             (let afterStart = (case f_dateFrom filters of None \<Rightarrow> True | Some d \<Rightarrow> d \<le> date rec);
                  beforeEnd = (case f_dateTo filters of None \<Rightarrow> True | Some d \<Rightarrow> date rec \<le> d)
              in afterStart \<and> beforeEnd)) rs
      else rs)"

definition sortNewestFirst :: "Recording list \<Rightarrow> Recording list" where
  "sortNewestFirst rs = sort_key (\<lambda>r. - date r) rs"

definition filterRecordings :: "Database \<Rightarrow> FilterOptions \<Rightarrow> thrown + Recording list" where
  "filterRecordings db filters =
     (case table_toArray db of
        Inl e \<Rightarrow> Inl (JsError ''Failed to filter recordings'')
      | Inr rs \<Rightarrow>
          Inr (sortNewestFirst
                (byDateRange filters (byPriority filters (byIsStudied filters
                  (byStatus filters (byCategory filters (byTags filters
                    (bySearchQuery filters rs)))))))))"

definition updateSearchText :: "Database \<Rightarrow> nat \<Rightarrow> (thrown + unit) \<times> Database" where
  "updateSearchText db k =
     (case table_get db k of
        Inl e \<Rightarrow> (Inl (JsError ''Failed to update search text''), db)
      | Inr None \<Rightarrow> (Inr (), db)
      | Inr (Some recording) \<Rightarrow>
          (case table_update db k (noUpdates\<lparr>u_searchText := Some (Some (generateSearchText recording))\<rparr>) of
             (Inl e, db') \<Rightarrow> (Inl (JsError ''Failed to update search text''), db')
           | (Inr n, db') \<Rightarrow> (Inr (), db')))"

section \<open>Numbers as text\<close>

text \<open>The decimal digits of a natural number, as \<^verbatim>\<open>toString\<close> prints them.\<close>

definition digitChar :: "nat \<Rightarrow> char" where
  "digitChar d = ''0123456789'' ! d"

function showNat :: "nat \<Rightarrow> string" where
  "showNat n = (if n < 10 then [digitChar n] else showNat (n div 10) @ [digitChar (n mod 10)])"
  by pat_completeness auto
termination
  by (relation "measure (\<lambda>n. n)") auto

text \<open>
  \<^verbatim>\<open>x.toFixed(1)\<close> for \<open>0 \<le> x < 10\<^sup>2\<^sup>1\<close>: the integer \<open>n\<close> for which \<open>n / 10\<close> is
  nearest to \<open>x\<close>, the larger one of two, printed with a point before its last digit.
\<close>

definition toFixed1 :: "real \<Rightarrow> string" where
  "toFixed1 x =
     (let n = nat \<lfloor>x * 10 + 1 / 2\<rfloor>
      in showNat (n div 10) @ ''.'' @ showNat (n mod 10))"

section \<open>What the outside world answers\<close>

text \<open>
  A call into a provider's SDK either resolves to a response or throws. The model takes
  the outcome as a parameter and records the calls that were made.
\<close>

datatype 'a sdk = Responds 'a | Throws thrown

datatype contentBlock = TextBlock string | OtherBlock

text \<open>
  The effects a reader of the workflow can tell apart: the SDK of the transcription
  provider was called with a file and a key, the SDK of the notes provider was called
  with a transcript and a key, an update was sent to the table.
\<close>

datatype event =
  WhisperCall Blob string
| ClaudeCall string string
| DbUpdate nat Updates

section \<open>Transcription client (OpenAI Whisper API service)\<close>

text \<open>
  \<^verbatim>\<open>audioBlob.size / (1024 * 1024)\<close>. The size is an integer and the divisor a power of
  two, so the floating-point quotient is the exact one.
\<close>

definition sizeMB :: "Blob \<Rightarrow> real" where
  "sizeMB blob = real (blob_size blob) / (1024 * 1024)"

definition tooLargeMessage :: "Blob \<Rightarrow> string" where
  "tooLargeMessage blob =
     ''Audio file too large ('' @ toFixed1 (sizeMB blob)
       @ ''MB). Whisper API supports files up to 25MB. ''
       @ ''Consider recording shorter segments.''"

text \<open>\<^verbatim>\<open>new File([audioBlob], 'recording.webm', {type: audioBlob.type || 'audio/webm'})\<close>.\<close>

definition audioFile :: "Blob \<Rightarrow> Blob" where
  "audioFile blob =
     blob\<lparr>blob_type := (if blob_type blob = [] then ''audio/webm''
                               else blob_type blob)\<rparr>"

text \<open>The \<^verbatim>\<open>try\<close> block: the result, and the calls made.\<close>

definition transcribeAudio_try ::
  "string sdk \<Rightarrow> Blob \<Rightarrow> string \<Rightarrow> (thrown + string) \<times> event list" where
  "transcribeAudio_try whisper blob apiKey =
     (if sizeMB blob > 25 then (Inl (JsError (tooLargeMessage blob)), [])
      else
        (case whisper of
           Throws e \<Rightarrow> (Inl e, [WhisperCall (audioFile blob) apiKey])
         | Responds text \<Rightarrow>
             if text = [] \<or> length (trim text) = 0
             then (Inl (JsError
                     ''Transcription returned empty text. The audio may be inaudible or too short.''),
                   [WhisperCall (audioFile blob) apiKey])
             else (Inr (trim text), [WhisperCall (audioFile blob) apiKey])))"

text \<open>The \<^verbatim>\<open>catch\<close> block: what is thrown on for a value caught.\<close>

definition transcribeAudio_catch :: "thrown \<Rightarrow> thrown" where
  "transcribeAudio_catch e =
     (case e of
        APIError st m \<Rightarrow>
          if st = Some 401
          then JsError ''Invalid OpenAI API key. Please check your API key in Settings.''
          else if st = Some 429
          then JsError ''OpenAI API rate limit exceeded. Please try again later.''
          else if st = Some 413
          then JsError ''Audio file too large for Whisper API (max 25MB).''
          else JsError (''OpenAI API error: '' @ m)
      | TypeError m \<Rightarrow>
          if includesStr m ''fetch''
          then JsError ''Network error. Please check your internet connection and try again.''
          else TypeError m
      | JsError m \<Rightarrow> JsError m
      | NonError \<Rightarrow> JsError ''Failed to transcribe audio. Please try again.'')"

definition transcribeAudio ::
  "string sdk \<Rightarrow> Blob \<Rightarrow> string \<Rightarrow> (thrown + string) \<times> event list" where
  "transcribeAudio whisper blob apiKey =
     (case transcribeAudio_try whisper blob apiKey of
        (Inr text, calls) \<Rightarrow> (Inr text, calls)
      | (Inl e, calls) \<Rightarrow> (Inl (transcribeAudio_catch e), calls))"

section \<open>Notes client (src/services/claudeApi.ts)\<close>

text \<open>The loop over \<^verbatim>\<open>response.content\<close>: the texts of the text blocks, in order.\<close>

fun blockTexts :: "contentBlock list \<Rightarrow> string" where
  "blockTexts [] = []"
| "blockTexts (TextBlock t # bs) = t @ blockTexts bs"
| "blockTexts (OtherBlock # bs) = blockTexts bs"

definition generateNotes_try ::
  "contentBlock list sdk \<Rightarrow> string \<Rightarrow> string \<Rightarrow> (thrown + string) \<times> event list" where
  "generateNotes_try claude transcriptText apiKey =
     (if transcriptText = [] \<or> length (trim transcriptText) = 0
      then (Inl (JsError ''Cannot generate notes from empty transcript.''), [])
      else
        (case claude of
           Throws e \<Rightarrow> (Inl e, [ClaudeCall transcriptText apiKey])
         | Responds content \<Rightarrow>
             (let notes = blockTexts content
              in if notes = [] \<or> length (trim notes) = 0
                 then (Inl (JsError ''Claude returned empty notes. Please try again.''),
                       [ClaudeCall transcriptText apiKey])
                 else (Inr (trim notes), [ClaudeCall transcriptText apiKey]))))"

definition generateNotes_catch :: "thrown \<Rightarrow> thrown" where
  "generateNotes_catch e =
     (case e of
        APIError st m \<Rightarrow>
          if st = Some 401
          then JsError ''Invalid Anthropic API key. Please check your API key in Settings.''
          else if st = Some 429
          then JsError ''Anthropic API rate limit exceeded. Please try again later.''
          else if st = Some 400
          then JsError
                 ''Invalid request to Claude API. The transcript may be too long or malformed.''
          else JsError (''Claude API error: '' @ m)
      | TypeError m \<Rightarrow>
          if includesStr m ''fetch''
          then JsError ''Network error. Please check your internet connection and try again.''
          else TypeError m
      | JsError m \<Rightarrow> JsError m
      | NonError \<Rightarrow> JsError ''Failed to generate notes. Please try again.'')"

definition generateNotes ::
  "contentBlock list sdk \<Rightarrow> string \<Rightarrow> string \<Rightarrow> (thrown + string) \<times> event list" where
  "generateNotes claude transcriptText apiKey =
     (case generateNotes_try claude transcriptText apiKey of
        (Inr notes, calls) \<Rightarrow> (Inr notes, calls)
      | (Inl e, calls) \<Rightarrow> (Inl (generateNotes_catch e), calls))"

section \<open>Workflow (src/components/RecordingItem.tsx)\<close>

text \<open>
  The context of one run of \<^verbatim>\<open>handleGenerateNotes\<close>: the two keys of the application
  context and what the two providers would answer.
\<close>

record Env =
  openaiKey :: "string option"
  anthropicKey :: "string option"
  whisper :: "string sdk"
  claude :: "contentBlock list sdk"

text \<open>The component's state that the handler writes.\<close>

record UiState =
  isProcessing :: bool
  processingError :: "string option"
  showNotes :: bool

text \<open>What a run can change: the table, the component's state, and the record of effects.\<close>

record World =
  database :: Database
  ui :: UiState
  events :: "event list"

type_synonym 'a io = "World \<Rightarrow> (thrown + 'a) \<times> World"

definition returnIO :: "'a \<Rightarrow> 'a io" where
  "returnIO x w = (Inr x, w)"

definition throwIO :: "thrown \<Rightarrow> 'a io" where
  "throwIO e w = (Inl e, w)"

text \<open>One statement after the other; a throw skips what follows.\<close>

definition bindIO :: "'a io \<Rightarrow> ('a \<Rightarrow> 'b io) \<Rightarrow> 'b io" where
  "bindIO m f w = (case m w of (Inl e, w') \<Rightarrow> (Inl e, w') | (Inr x, w') \<Rightarrow> f x w')"

definition setIsProcessing :: "bool \<Rightarrow> unit io" where
  "setIsProcessing b w = (Inr (), w\<lparr>ui := (ui w)\<lparr>isProcessing := b\<rparr>\<rparr>)"

definition setProcessingError :: "string option \<Rightarrow> unit io" where
  "setProcessingError e w = (Inr (), w\<lparr>ui := (ui w)\<lparr>processingError := e\<rparr>\<rparr>)"

definition setShowNotes :: "bool \<Rightarrow> unit io" where
  "setShowNotes b w = (Inr (), w\<lparr>ui := (ui w)\<lparr>showNotes := b\<rparr>\<rparr>)"

text \<open>\<^verbatim>\<open>await updateRecording(id, updates)\<close>.\<close>

definition updateRecordingIO :: "nat \<Rightarrow> Updates \<Rightarrow> nat io" where
  "updateRecordingIO k updates w =
     (case updateRecording (database w) k updates of
        (res, db') \<Rightarrow> (res, w\<lparr>database := db', events := events w @ [DbUpdate k updates]\<rparr>))"

text \<open>\<^verbatim>\<open>await transcribeAudio(blob, key)\<close> and \<^verbatim>\<open>await generateNotes(text, key)\<close>.\<close>

definition transcribeAudioIO :: "Env \<Rightarrow> Blob \<Rightarrow> string \<Rightarrow> string io" where
  "transcribeAudioIO env blob apiKey w =
     (case transcribeAudio (whisper env) blob apiKey of
        (res, calls) \<Rightarrow> (res, w\<lparr>events := events w @ calls\<rparr>))"

definition generateNotesIO :: "Env \<Rightarrow> string \<Rightarrow> string \<Rightarrow> string io" where
  "generateNotesIO env transcriptText apiKey w =
     (case generateNotes (claude env) transcriptText apiKey of
        (res, calls) \<Rightarrow> (res, w\<lparr>events := events w @ calls\<rparr>))"

text \<open>Step 1, the body of \<^verbatim>\<open>if (!transcriptText)\<close>; it yields the new transcript.\<close>

definition transcriptionStep :: "Env \<Rightarrow> Recording \<Rightarrow> nat \<Rightarrow> string io" where
  "transcriptionStep env recording rid =
     (if orEmpty (openaiKey env) = []
      then throwIO (JsError
             ''OpenAI API key not configured. Please add your API key in Settings.'')
      else
        bindIO (updateRecordingIO rid (noUpdates\<lparr>u_status := Some S_transcribing\<rparr>)) (\<lambda>_.
        bindIO (transcribeAudioIO env (audioBlob recording) (orEmpty (openaiKey env)))
          (\<lambda>transcriptText.
        bindIO (updateRecordingIO rid
                  (noUpdates\<lparr>u_transcript := Some (Some transcriptText),
                             u_status := Some S_transcribed\<rparr>)) (\<lambda>_.
        returnIO transcriptText))))"

text \<open>Step 2, note generation from the transcript text at hand.\<close>

definition notesStep :: "Env \<Rightarrow> nat \<Rightarrow> string \<Rightarrow> unit io" where
  "notesStep env rid transcriptText =
     (if orEmpty (anthropicKey env) = []
      then throwIO (JsError
             ''Anthropic API key not configured. Please add your API key in Settings.'')
      else if transcriptText = [] \<or> length (trim transcriptText) = 0
      then throwIO (JsError ''No transcript available for note generation.'')
      else
        bindIO (updateRecordingIO rid (noUpdates\<lparr>u_status := Some S_generating_notes\<rparr>)) (\<lambda>_.
        bindIO (generateNotesIO env transcriptText (orEmpty (anthropicKey env))) (\<lambda>notes.
        bindIO (updateRecordingIO rid
                  (noUpdates\<lparr>u_notesText := Some (Some notes), u_status := Some S_complete\<rparr>)) (\<lambda>_.
        setShowNotes True))))"

text \<open>The \<^verbatim>\<open>try\<close> block.\<close>

definition tryBlock :: "Env \<Rightarrow> Recording \<Rightarrow> nat \<Rightarrow> unit io" where
  "tryBlock env recording rid =
     bindIO (setIsProcessing True) (\<lambda>_.
     bindIO (setProcessingError None) (\<lambda>_.
     bindIO (if orEmpty (transcript recording) = []
             then transcriptionStep env recording rid
             else returnIO (orEmpty (transcript recording))) (\<lambda>transcriptText.
     notesStep env rid transcriptText)))"

text \<open>The \<^verbatim>\<open>catch\<close> block; \<^verbatim>\<open>recording.id\<close> is truthy here.\<close>

definition catchBlock :: "nat \<Rightarrow> thrown \<Rightarrow> unit io" where
  "catchBlock rid e =
     (let errorMessage = (if instanceofError e then message e else ''Failed to generate notes'')
      in bindIO (setProcessingError (Some errorMessage)) (\<lambda>_.
         bindIO (updateRecordingIO rid
                   (noUpdates\<lparr>u_status := Some S_error,
                              u_errorMessage := Some (Some errorMessage)\<rparr>)) (\<lambda>_.
         returnIO ())))"

text \<open>
  \<^verbatim>\<open>handleGenerateNotes\<close>: nothing happens for a recording without a truthy id (absent,
  or 0); otherwise \<^verbatim>\<open>try\<close>, \<^verbatim>\<open>catch\<close> and, whatever the outcome, \<^verbatim>\<open>finally\<close>.
\<close>

definition handleGenerateNotes :: "Env \<Rightarrow> Recording \<Rightarrow> unit io" where
  "handleGenerateNotes env recording w =
     (case id_key recording of
        None \<Rightarrow> (Inr (), w)
      | Some rid \<Rightarrow>
          if rid = 0 then (Inr (), w)
          else
            (case (case tryBlock env recording rid w of
                     (Inr u, w1) \<Rightarrow> (Inr (), w1)
                   | (Inl e, w1) \<Rightarrow> catchBlock rid e w1) of
               (res, w2) \<Rightarrow> (res, w2\<lparr>ui := (ui w2)\<lparr>isProcessing := False\<rparr>\<rparr>)))"

text \<open>
  The button \<^verbatim>\<open>Generate Notes\<close>: \<^verbatim>\<open>disabled={isProcessing || recording.status === 'complete'}\<close>
  and \<^verbatim>\<open>onClick={handleGenerateNotes}\<close>. A click on a disabled button calls no handler.
\<close>

definition generateNotesDisabled :: "Recording \<Rightarrow> World \<Rightarrow> bool" where
  "generateNotesDisabled recording w = (isProcessing (ui w) \<or> status recording = S_complete)"

definition clickGenerateNotes :: "Env \<Rightarrow> Recording \<Rightarrow> unit io" where
  "clickGenerateNotes env recording w =
     (if generateNotesDisabled recording w then (Inr (), w)
      else handleGenerateNotes env recording w)"

section \<open>Capture service (Audio Recorder service, class AudioRecorder)\<close>

text \<open>
  The browser's \<^verbatim>\<open>MediaRecorder\<close>, by its state and MIME type, and its
  \<^verbatim>\<open>MediaStream\<close>, by whether its tracks are live. \<^verbatim>\<open>start()\<close> throws an
  \<^verbatim>\<open>InvalidStateError\<close> unless the state is \<^verbatim>\<open>inactive\<close>; \<^verbatim>\<open>stop()\<close> on an inactive
  recorder does nothing and fires no \<^verbatim>\<open>stop\<close> event.
\<close>

datatype RecordingState = RS_inactive | RS_recording | RS_paused

record MediaRecorder =
  mr_state :: RecordingState
  mr_mimeType :: string

record MediaStream =
  tracksLive :: bool

text \<open>The fields of the class \<^verbatim>\<open>AudioRecorder\<close>; the times are values of \<^verbatim>\<open>Date.now()\<close>.\<close>

record AudioRecorder =
  mediaRecorder :: "MediaRecorder option"
  audioChunks :: "Blob list"
  stream :: "MediaStream option"
  startTime :: int
  pausedDuration :: int
  pauseStartTime :: int

definition newAudioRecorder :: AudioRecorder where
  "newAudioRecorder =
     \<lparr>mediaRecorder = None, audioChunks = [], stream = None, startTime = 0,
      pausedDuration = 0, pauseStartTime = 0\<rparr>"

definition cleanup :: "AudioRecorder \<Rightarrow> AudioRecorder" where
  "cleanup r = r\<lparr>stream := None, mediaRecorder := None, audioChunks := []\<rparr>"

text \<open>What \<^verbatim>\<open>getUserMedia\<close> answers: a stream, or an error of some name.\<close>

datatype mediaAccess = Granted | Refused string

definition mimeTypes :: "string list" where
  "mimeTypes = [''audio/webm;codecs=opus'', ''audio/webm'', ''audio/ogg;codecs=opus'']"

text \<open>
  \<^verbatim>\<open>initialize()\<close>, given the answer of \<^verbatim>\<open>getUserMedia\<close> and the predicate
  \<^verbatim>\<open>MediaRecorder.isTypeSupported\<close>. Every failure runs \<^verbatim>\<open>cleanup()\<close>.
\<close>

definition initialize ::
  "mediaAccess \<Rightarrow> (string \<Rightarrow> bool) \<Rightarrow> AudioRecorder \<Rightarrow> (thrown + unit) \<times> AudioRecorder" where
  "initialize access isTypeSupported r =
     (case access of
        Refused name \<Rightarrow>
          (Inl (JsError
             (if name = ''NotAllowedError'' \<or> name = ''PermissionDeniedError''
              then ''Microphone permission denied. Please allow microphone access in your browser settings.''
              else if name = ''NotFoundError''
              then ''No microphone found. Please connect a microphone and try again.''
              else ''Failed to initialize audio recorder'')),
           cleanup r)
      | Granted \<Rightarrow>
          (let r1 = r\<lparr>stream := Some \<lparr>tracksLive = True\<rparr>\<rparr>
           in case find isTypeSupported mimeTypes of
                None \<Rightarrow> (Inl (JsError ''Failed to initialize audio recorder''), cleanup r1)
              | Some selectedMimeType \<Rightarrow>
                  (Inr (),
                   r1\<lparr>mediaRecorder :=
                        Some \<lparr>mr_state = RS_inactive, mr_mimeType = selectedMimeType\<rparr>\<rparr>)))"

text \<open>The handler \<^verbatim>\<open>ondataavailable\<close>.\<close>

definition dataavailable :: "Blob \<Rightarrow> AudioRecorder \<Rightarrow> AudioRecorder" where
  "dataavailable chunk r =
     (if blob_size chunk > 0 then r\<lparr>audioChunks := audioChunks r @ [chunk]\<rparr> else r)"

text \<open>\<^verbatim>\<open>start()\<close> at the time \<open>now\<close>. The fields are reset before the recorder is started.\<close>

definition start :: "int \<Rightarrow> AudioRecorder \<Rightarrow> (thrown + unit) \<times> AudioRecorder" where
  "start now r =
     (case mediaRecorder r of
        None \<Rightarrow> (Inl (JsError ''Recorder not initialized. Call initialize() first.''), r)
      | Some mr \<Rightarrow>
          (let r1 = r\<lparr>audioChunks := [], startTime := now, pausedDuration := 0\<rparr>
           in if mr_state mr = RS_inactive
              then (Inr (), r1\<lparr>mediaRecorder := Some (mr\<lparr>mr_state := RS_recording\<rparr>)\<rparr>)
              else (Inl (JsError ''InvalidStateError''), r1)))"

definition pause :: "int \<Rightarrow> AudioRecorder \<Rightarrow> (thrown + unit) \<times> AudioRecorder" where
  "pause now r =
     (case mediaRecorder r of
        None \<Rightarrow> (Inl (JsError ''Recorder not initialized''), r)
      | Some mr \<Rightarrow>
          if mr_state mr \<noteq> RS_recording then (Inl (JsError ''Recorder is not recording''), r)
          else (Inr (),
                r\<lparr>pauseStartTime := now,
                  mediaRecorder := Some (mr\<lparr>mr_state := RS_paused\<rparr>)\<rparr>))"

definition resume :: "int \<Rightarrow> AudioRecorder \<Rightarrow> (thrown + unit) \<times> AudioRecorder" where
  "resume now r =
     (case mediaRecorder r of
        None \<Rightarrow> (Inl (JsError ''Recorder not initialized''), r)
      | Some mr \<Rightarrow>
          if mr_state mr \<noteq> RS_paused then (Inl (JsError ''Recorder is not paused''), r)
          else (Inr (),
                r\<lparr>pausedDuration := pausedDuration r + (now - pauseStartTime r),
                  mediaRecorder := Some (mr\<lparr>mr_state := RS_recording\<rparr>)\<rparr>))"

text \<open>
  \<^verbatim>\<open>Math.round\<close>: the nearest integer, the larger one of two. For an integer number
  \<open>n\<close> of milliseconds below \<open>2\<^sup>5\<^sup>3\<close> the floating-point quotient \<open>n / 1000\<close> is
  rounded by it to the same integer as the exact quotient.
\<close>

definition mathRound :: "real \<Rightarrow> int" where
  "mathRound x = \<lfloor>x + 1 / 2\<rfloor>"

text \<open>The state of the promise that \<^verbatim>\<open>stop()\<close> returns.\<close>

datatype 'a promise = Resolved 'a | Rejected thrown | Pending

record StopResult =
  res_blob :: Blob
  res_duration :: int
  res_mimeType :: string

text \<open>\<^verbatim>\<open>new Blob(chunks, {type})\<close>.\<close>

definition concatBlobs :: "Blob list \<Rightarrow> string \<Rightarrow> Blob" where
  "concatBlobs chunks ty = \<lparr>blob_size = sum_list (map blob_size chunks), blob_type = ty\<rparr>"

text \<open>
  \<^verbatim>\<open>stop()\<close>. The recorder delivers the data gathered last in a final \<^verbatim>\<open>dataavailable\<close>
  event and then fires \<^verbatim>\<open>stop\<close>; \<open>now\<close> is the time at which the handler \<^verbatim>\<open>onstop\<close>
  runs.
\<close>

definition stop :: "int \<Rightarrow> Blob \<Rightarrow> AudioRecorder \<Rightarrow> StopResult promise \<times> AudioRecorder" where
  "stop now lastChunk r =
     (case mediaRecorder r of
        None \<Rightarrow> (Rejected (JsError ''Recorder not initialized''), r)
      | Some mr \<Rightarrow>
          if mr_state mr = RS_inactive then (Pending, r)
          else
            (let r1 = dataavailable lastChunk r;
                 blob = concatBlobs (audioChunks r1) (mr_mimeType mr);
                 totalTime = now - startTime r1;
                 duration = mathRound (real_of_int (totalTime - pausedDuration r1) / 1000)
             in (Resolved \<lparr>res_blob = blob, res_duration = duration,
                           res_mimeType = mr_mimeType mr\<rparr>,
                 cleanup r1)))"

text \<open>
  A caller that pauses and resumes again, once for every pair of times given, and the
  total time spent paused in these pairs.
\<close>

fun pauseResumePairs ::
  "(int \<times> int) list \<Rightarrow> AudioRecorder \<Rightarrow> (thrown + unit) \<times> AudioRecorder" where
  "pauseResumePairs [] r = (Inr (), r)"
| "pauseResumePairs ((pausedAt, resumedAt) # ps) r =
     (case pause pausedAt r of
        (Inl e, r') \<Rightarrow> (Inl e, r')
      | (Inr u, r1) \<Rightarrow>
          (case resume resumedAt r1 of
             (Inl e, r') \<Rightarrow> (Inl e, r')
           | (Inr u, r2) \<Rightarrow> pauseResumePairs ps r2))"

definition pausedTotal :: "(int \<times> int) list \<Rightarrow> int" where
  "pausedTotal ps = sum_list (map (\<lambda>(pausedAt, resumedAt). resumedAt - pausedAt) ps)"

section \<open>Recording controls (component RecordingControls)\<close>

text \<open>
  The state of the component that \<^verbatim>\<open>handleStartRecording\<close> writes: the recorder it
  holds, the error it shows, the stream handed to the visualizer, the two recording flags
  of the application context, and whether the timer runs.
\<close>

record Controls =
  audioRecorderRef :: "AudioRecorder option"
  controlsError :: "string option"
  audioStream :: "MediaStream option"
  isRecording :: bool
  isPaused :: bool
  timerRunning :: bool

text \<open>
  \<^verbatim>\<open>handleStartRecording\<close>, with the time of the click: a new recorder is initialized
  and started; whatever is thrown on the way is caught and its message shown with
  \<^verbatim>\<open>setError\<close>. The handler has no access to the table of recordings.
\<close>

definition handleStartRecording ::
  "mediaAccess \<Rightarrow> (string \<Rightarrow> bool) \<Rightarrow> int \<Rightarrow> Controls \<Rightarrow> Controls" where
  "handleStartRecording access isTypeSupported now c =
     (let c1 = c\<lparr>controlsError := None\<rparr>
      in case initialize access isTypeSupported newAudioRecorder of
           (Inl err, recorder) \<Rightarrow>
             c1\<lparr>audioRecorderRef := Some recorder,
                controlsError :=
                  Some (if instanceofError err then message err
                        else ''Failed to start recording'')\<rparr>
         | (Inr u, recorder) \<Rightarrow>
             (let c2 = c1\<lparr>audioStream := stream recorder\<rparr>
              in case start now recorder of
                   (Inl err, recorder') \<Rightarrow>
                     c2\<lparr>audioRecorderRef := Some recorder',
                        controlsError :=
                          Some (if instanceofError err then message err
                                else ''Failed to start recording'')\<rparr>
                 | (Inr u, recorder') \<Rightarrow>
                     c2\<lparr>audioRecorderRef := Some recorder', isRecording := True,
                        isPaused := False, timerRunning := True\<rparr>))"

section \<open>Sample data\<close>

text \<open>A fresh recording as the capture page stores it, and small tables of such.\<close>

definition sampleRecording :: "nat \<Rightarrow> string \<Rightarrow> int \<Rightarrow> Recording" where
  "sampleRecording k name d =
     \<lparr>id_key = Some k, filename = name, customName = None, date = d, duration = 15,
      audioBlob = \<lparr>blob_size = 1024, blob_type = ''audio/webm''\<rparr>,
      transcript = None, notesText = None, status = S_recorded, errorMessage = None,
      mimeType = ''audio/webm;codecs=opus'', tags = None, category = None, subject = None,
      searchText = None, priority = None, isStudied = None, lastModified = None,
      exportedAt = None, transcriptSegments = None\<rparr>"

definition emptyDatabase :: Database where
  "emptyDatabase = \<lparr>recordings = [], nextId = 1, failing = False\<rparr>"

definition sampleDatabase :: Database where
  "sampleDatabase =
     \<lparr>recordings =
        [sampleRecording 1 ''Recording 2024-01-30'' 1706600000000,
         sampleRecording 2 ''Recording 2024-02-02'' 1706860000000],
      nextId = 3, failing = False\<rparr>"

definition noFilters :: FilterOptions where
  "noFilters =
     \<lparr>f_searchQuery = None, f_tags = None, f_category = None, f_status = None,
      f_isStudied = None, f_priority = None, f_dateFrom = None, f_dateTo = None\<rparr>"

text \<open>The argument of Scenario D: \<^verbatim>\<open>{tags: ["physics"], isStudied: false}\<close>.\<close>

definition scenarioD :: FilterOptions where
  "scenarioD = noFilters\<lparr>f_tags := Some [''physics''], f_isStudied := Some False\<rparr>"

text \<open>
  Four recordings for Scenario D: tagged physics and not studied; tagged physics and
  studied; tagged maths and not studied; tagged physics with no study flag.
\<close>

definition physicsDatabase :: Database where
  "physicsDatabase =
     \<lparr>recordings =
        [(sampleRecording 1 ''Optics'' 100)\<lparr>tags := Some [''lab'', ''physics''], isStudied := Some False\<rparr>,
         (sampleRecording 2 ''Waves'' 200)\<lparr>tags := Some [''physics''], isStudied := Some True\<rparr>,
         (sampleRecording 3 ''Algebra'' 300)\<lparr>tags := Some [''maths''], isStudied := Some False\<rparr>,
         (sampleRecording 4 ''Heat'' 400)\<lparr>tags := Some [''physics'']\<rparr>],
      nextId = 5, failing = False\<rparr>"

definition idleUi :: UiState where
  "idleUi = \<lparr>isProcessing = False, processingError = None, showNotes = False\<rparr>"

text \<open>The sample table with nothing in progress and no effect recorded yet.\<close>

definition sampleWorld :: World where
  "sampleWorld = \<lparr>database = sampleDatabase, ui = idleUi, events = []\<rparr>"

text \<open>
  Scenario B: both keys configured, the transcription provider answers
  \<^verbatim>\<open>Hello world\<close>, the notes provider answers one text block.
\<close>

definition scenarioB :: Env where
  "scenarioB =
     \<lparr>openaiKey = Some ''sk-test'', anthropicKey = Some ''sk-ant-test'',
      whisper = Responds ''Hello world'',
      claude = Responds [TextBlock (''## Summary'' @ [CHR 0x0A] @ ''- point'')]\<rparr>"

text \<open>Scenario C: the transcription provider answers with status 401.\<close>

definition scenarioC :: Env where
  "scenarioC = scenarioB\<lparr>whisper := Throws (APIError (Some 401) ''Unauthorized'')\<rparr>"

text \<open>A recording that went through the workflow, and a table that holds it.\<close>

definition completeRecording :: Recording where
  "completeRecording =
     (sampleRecording 1 ''Recording 2024-01-30'' 1706600000000)
       \<lparr>transcript := Some ''Hello world'', notesText := Some ''## First notes'',
        status := S_complete\<rparr>"

definition completeWorld :: World where
  "completeWorld =
     \<lparr>database = \<lparr>recordings = [completeRecording], nextId = 2, failing = False\<rparr>,
      ui = idleUi, events = []\<rparr>"

text \<open>A recording whose transcription is done, and a table that holds it.\<close>

definition transcribedRecording :: Recording where
  "transcribedRecording =
     (sampleRecording 1 ''Recording 2024-01-30'' 1706600000000)
       \<lparr>transcript := Some ''Hello world'', status := S_transcribed\<rparr>"

definition transcribedWorld :: World where
  "transcribedWorld =
     \<lparr>database = \<lparr>recordings = [transcribedRecording], nextId = 2, failing = False\<rparr>,
      ui = idleUi, events = []\<rparr>"

text \<open>A recorder after \<^verbatim>\<open>initialize()\<close> in a browser that supports WebM with Opus.\<close>

definition readyRecorder :: AudioRecorder where
  "readyRecorder =
     snd (initialize Granted (\<lambda>m. m = ''audio/webm;codecs=opus'' \<or> m = ''audio/webm'')
            newAudioRecorder)"

text \<open>
  The table of the transcribed recording while IndexedDB is out of order, and a context
  in which no Anthropic key is configured.
\<close>

definition brokenWorld :: World where
  "brokenWorld = transcribedWorld\<lparr>database := (database transcribedWorld)\<lparr>failing := True\<rparr>\<rparr>"

definition noAnthropicKey :: Env where
  "noAnthropicKey = scenarioB\<lparr>anthropicKey := None\<rparr>"

text \<open>The recording controls before the first click.\<close>

definition idleControls :: Controls where
  "idleControls =
     \<lparr>audioRecorderRef = None, controlsError = None, audioStream = None,
      isRecording = False, isPaused = False, timerRunning = False\<rparr>"

section \<open>Vocabulary for the workflow's effects\<close>

text \<open>Two worlds have the same shape: IndexedDB works in both or in none, and the table
  holds the same ids in the same order.\<close>

definition sameShape :: "World \<Rightarrow> World \<Rightarrow> bool" where
  "sameShape w w' =
     (failing (database w') = failing (database w) \<and>
      map id_key (recordings (database w')) = map id_key (recordings (database w)))"

fun isWhisperCall :: "event \<Rightarrow> bool" where
  "isWhisperCall (WhisperCall b k) = True"
| "isWhisperCall _ = False"

fun isTranscribingWrite :: "event \<Rightarrow> bool" where
  "isTranscribingWrite (DbUpdate k u) = (u_status u = Some S_transcribing)"
| "isTranscribingWrite _ = False"

fun isTranscriptWrite :: "event \<Rightarrow> bool" where
  "isTranscriptWrite (DbUpdate k u) = given (u_transcript u)"
| "isTranscriptWrite _ = False"

text \<open>An effect that has nothing to do with transcription.\<close>

definition quietEvent :: "event \<Rightarrow> bool" where
  "quietEvent e = (\<not> isWhisperCall e \<and> \<not> isTranscribingWrite e \<and> \<not> isTranscriptWrite e)"

text \<open>A step from \<open>w\<close> to \<open>w'\<close> that adds only such effects and leaves every stored
  transcript as it was.\<close>

definition quietStep :: "World \<Rightarrow> World \<Rightarrow> bool" where
  "quietStep w w' =
     ((\<exists>new. events w' = events w @ new \<and> list_all quietEvent new) \<and>
      map transcript (recordings (database w')) = map transcript (recordings (database w)))"

section \<open>The specification's reading of update and filter\<close>

text \<open>
  "Reflects exactly the updated fields, others unchanged": a property of the record after
  the update is the given value when one is given, and the old value otherwise.
\<close>

definition fieldUpdated :: "'a option \<Rightarrow> 'a \<Rightarrow> 'a \<Rightarrow> bool" where
  "fieldUpdated g old new = (case g of None \<Rightarrow> new = old | Some v \<Rightarrow> new = v)"

definition exactlyUpdated :: "Updates \<Rightarrow> Recording \<Rightarrow> Recording \<Rightarrow> bool" where
  "exactlyUpdated u r r' =
     (id_key r' = id_key r \<and>
      fieldUpdated (u_filename u) (filename r) (filename r') \<and>
      fieldUpdated (u_customName u) (customName r) (customName r') \<and>
      fieldUpdated (u_date u) (date r) (date r') \<and>
      fieldUpdated (u_duration u) (duration r) (duration r') \<and>
      fieldUpdated (u_audioBlob u) (audioBlob r) (audioBlob r') \<and>
      fieldUpdated (u_transcript u) (transcript r) (transcript r') \<and>
      fieldUpdated (u_notesText u) (notesText r) (notesText r') \<and>
      fieldUpdated (u_status u) (status r) (status r') \<and>
      fieldUpdated (u_errorMessage u) (errorMessage r) (errorMessage r') \<and>
      fieldUpdated (u_mimeType u) (mimeType r) (mimeType r') \<and>
      fieldUpdated (u_tags u) (tags r) (tags r') \<and>
      fieldUpdated (u_category u) (category r) (category r') \<and>
      fieldUpdated (u_subject u) (subject r) (subject r') \<and>
      fieldUpdated (u_searchText u) (searchText r) (searchText r') \<and>
      fieldUpdated (u_priority u) (priority r) (priority r') \<and>
      fieldUpdated (u_isStudied u) (isStudied r) (isStudied r') \<and>
      fieldUpdated (u_lastModified u) (lastModified r) (lastModified r') \<and>
      fieldUpdated (u_exportedAt u) (exportedAt r) (exportedAt r') \<and>
      fieldUpdated (u_transcriptSegments u) (transcriptSegments r) (transcriptSegments r'))"

text \<open>
  The criteria of a filter, one by one. A criterion that is not supplied (absent, or an
  empty query, tag list or category) holds of every record. The tags criterion is
  match-any: the record has at least one of the tags asked for.
\<close>

definition hasTag :: "string \<Rightarrow> Recording \<Rightarrow> bool" where
  "hasTag t r = (case tags r of None \<Rightarrow> False | Some ts \<Rightarrow> t \<in> set ts)"

definition textCriterion :: "FilterOptions \<Rightarrow> Recording \<Rightarrow> bool" where
  "textCriterion f r =
     (case f_searchQuery f of
        None \<Rightarrow> True
      | Some q \<Rightarrow> trim q = [] \<or> includesStr (searchTextOf r) (trim (toLowerCase q)))"

definition tagsCriterion :: "FilterOptions \<Rightarrow> Recording \<Rightarrow> bool" where
  "tagsCriterion f r =
     (case f_tags f of None \<Rightarrow> True | Some fts \<Rightarrow> fts = [] \<or> list_ex (\<lambda>t. hasTag t r) fts)"

definition categoryCriterion :: "FilterOptions \<Rightarrow> Recording \<Rightarrow> bool" where
  "categoryCriterion f r =
     (case f_category f of None \<Rightarrow> True | Some c \<Rightarrow> c = [] \<or> category r = Some c)"

definition statusCriterion :: "FilterOptions \<Rightarrow> Recording \<Rightarrow> bool" where
  "statusCriterion f r = (case f_status f of None \<Rightarrow> True | Some s \<Rightarrow> status r = s)"

definition studiedCriterion :: "FilterOptions \<Rightarrow> Recording \<Rightarrow> bool" where
  "studiedCriterion f r = (case f_isStudied f of None \<Rightarrow> True | Some b \<Rightarrow> isStudied r = Some b)"

definition priorityCriterion :: "FilterOptions \<Rightarrow> Recording \<Rightarrow> bool" where
  "priorityCriterion f r = (case f_priority f of None \<Rightarrow> True | Some p \<Rightarrow> priority r = Some p)"

definition dateCriterion :: "FilterOptions \<Rightarrow> Recording \<Rightarrow> bool" where
  "dateCriterion f r =
     ((case f_dateFrom f of None \<Rightarrow> True | Some d \<Rightarrow> d \<le> date r) \<and>
      (case f_dateTo f of None \<Rightarrow> True | Some d \<Rightarrow> date r \<le> d))"

definition allCriteria :: "FilterOptions \<Rightarrow> Recording \<Rightarrow> bool" where
  "allCriteria f r =
     (textCriterion f r \<and> tagsCriterion f r \<and> categoryCriterion f r \<and> statusCriterion f r \<and>
      studiedCriterion f r \<and> priorityCriterion f r \<and> dateCriterion f r)"

section \<open>Facts about strings\<close>

lemma startsWith_prefix: "startsWith s p \<longleftrightarrow> prefix p s"
proof
  assume "startsWith s p"
  then have "take (length p) s = p" by (simp add: startsWith_def)
  then show "prefix p s" by (metis take_is_prefix)
next
  assume "prefix p s"
  then obtain t where "s = p @ t" by (auto simp: prefix_def)
  then show "startsWith s p" by (simp add: startsWith_def)
qed

lemma dropWhile_rev_dropWhile_Nil:
  "dropWhile P (rev (dropWhile P s)) = [] \<longleftrightarrow> dropWhile P s = []"
proof (cases "dropWhile P s")
  case Nil
  then show ?thesis by (simp only: rev.simps dropWhile.simps)
next
  case (Cons x xs)
  then have "\<not> P x" by (metis hd_dropWhile list.sel(1) list.distinct(1))
  with Cons show ?thesis by (auto simp: dropWhile_eq_Nil_conv)
qed

lemma trim_Nil_iff: "trim s = [] \<longleftrightarrow> list_all isWhiteSpace s"
  unfolding trim_def rev_is_Nil_conv dropWhile_rev_dropWhile_Nil
  by (simp add: dropWhile_eq_Nil_conv list_all_iff)

lemma trim_append_space:
  assumes "list_all isWhiteSpace r"
  shows "trim (k @ r) = trim k"
proof (cases "list_all isWhiteSpace k")
  case True
  with assms have "list_all isWhiteSpace (k @ r)" by simp
  then have "trim (k @ r) = []" by (simp only: trim_Nil_iff)
  moreover from True have "trim k = []" by (simp only: trim_Nil_iff)
  ultimately show ?thesis by simp
next
  case False
  then obtain x where x: "x \<in> set k" "\<not> isWhiteSpace x" by (auto simp: list_all_iff)
  then have "dropWhile isWhiteSpace (k @ r) = dropWhile isWhiteSpace k @ r"
    by (simp add: dropWhile_append1)
  moreover from assms have "\<And>c. c \<in> set (rev r) \<Longrightarrow> isWhiteSpace c"
    by (simp add: list_all_iff)
  then have "dropWhile isWhiteSpace (rev r @ rev (dropWhile isWhiteSpace k))
      = dropWhile isWhiteSpace (rev (dropWhile isWhiteSpace k))"
    by (rule dropWhile_append2)
  ultimately show ?thesis by (simp add: trim_def)
qed

lemma trim_space_append:
  assumes "list_all isWhiteSpace l"
  shows "trim (l @ k) = trim k"
proof -
  from assms have "\<And>c. c \<in> set l \<Longrightarrow> isWhiteSpace c" by (simp add: list_all_iff)
  then have "dropWhile isWhiteSpace (l @ k) = dropWhile isWhiteSpace k"
    by (rule dropWhile_append2)
  then show ?thesis by (simp add: trim_def)
qed

section \<open>Credential format validation\<close>

text \<open>
  C10. Both validators look at the trimmed key only: \<open>validateOpenAIKey\<close> holds exactly
  when the trimmed key starts with \<open>sk-\<close>, \<open>validateAnthropicKey\<close> exactly when it starts
  with \<open>sk-ant-\<close>; white space put around a key changes neither answer; and every key the
  Anthropic validator accepts is accepted by the OpenAI validator too.
\<close>

theorem validate_keys_trimmed_prefix:
  "(validateOpenAIKey k \<longleftrightarrow> prefix ''sk-'' (trim k)) \<and>
   (validateAnthropicKey k \<longleftrightarrow> prefix ''sk-ant-'' (trim k)) \<and>
   (list_all isWhiteSpace l \<and> list_all isWhiteSpace r \<longrightarrow>
      validateOpenAIKey (l @ k @ r) = validateOpenAIKey k \<and>
      validateAnthropicKey (l @ k @ r) = validateAnthropicKey k) \<and>
   (validateAnthropicKey k \<longrightarrow> validateOpenAIKey k)"
proof -
  have open_ai: "validateOpenAIKey k \<longleftrightarrow> prefix ''sk-'' (trim k)"
    by (simp only: validateOpenAIKey_def startsWith_prefix)
  have anthropic: "validateAnthropicKey k \<longleftrightarrow> prefix ''sk-ant-'' (trim k)"
    by (simp only: validateAnthropicKey_def startsWith_prefix)
  have around: "trim (l @ k @ r) = trim k"
    if "list_all isWhiteSpace l" "list_all isWhiteSpace r"
    using that by (simp add: trim_space_append trim_append_space)
  have short: "prefix ''sk-'' ''sk-ant-''" by simp
  have both: "validateOpenAIKey k" if "validateAnthropicKey k"
  proof -
    from that anthropic have "prefix ''sk-ant-'' (trim k)" by (simp only:)
    with short have "prefix ''sk-'' (trim k)" by (rule prefix_order.trans)
    with open_ai show ?thesis by (simp only:)
  qed
  have wrapped: "validateOpenAIKey (l @ k @ r) = validateOpenAIKey k \<and>
      validateAnthropicKey (l @ k @ r) = validateAnthropicKey k"
    if "list_all isWhiteSpace l \<and> list_all isWhiteSpace r"
    using that around by (simp only: validateOpenAIKey_def validateAnthropicKey_def)
  from open_ai anthropic wrapped both show ?thesis by blast
qed

theorem validate_keys_trimmed_prefix_witness:
  "list_all isWhiteSpace '' '' \<and> list_all isWhiteSpace [CHR 0x09, CHR 0x0A] \<and>
   validateAnthropicKey ''sk-ant-api03'' \<and>
   validateOpenAIKey ('' '' @ ''sk-ant-api03'' @ [CHR 0x09, CHR 0x0A]) \<and>
   validateAnthropicKey ('' '' @ ''sk-ant-api03'' @ [CHR 0x09, CHR 0x0A]) \<and>
   validateOpenAIKey ''sk-ant-api03'' \<and>
   prefix ''sk-ant-'' (trim ''sk-ant-api03'')"
proof -
  have l: "list_all isWhiteSpace '' ''" by (simp add: isWhiteSpace_def)
  have r: "list_all isWhiteSpace [CHR 0x09, CHR 0x0A]" by (simp add: isWhiteSpace_def)
  have a: "validateAnthropicKey ''sk-ant-api03''"
    by (simp add: validateAnthropicKey_def startsWith_def trim_def isWhiteSpace_def)
  note at_key =
    validate_keys_trimmed_prefix [of "''sk-ant-api03''" "'' ''" "[CHR 0x09, CHR 0x0A]"]
  from at_key a have o: "validateOpenAIKey ''sk-ant-api03''" by blast
  from at_key a have p: "prefix ''sk-ant-'' (trim ''sk-ant-api03'')" by blast
  from at_key l r o
  have o': "validateOpenAIKey ('' '' @ ''sk-ant-api03'' @ [CHR 0x09, CHR 0x0A])" by blast
  from at_key l r a
  have a': "validateAnthropicKey ('' '' @ ''sk-ant-api03'' @ [CHR 0x09, CHR 0x0A])" by blast
  from l r a o' a' o p show ?thesis by blast
qed

section \<open>Facts about the table and the filters\<close>

lemma id_key_applyUpdates: "id_key (applyUpdates u r) = id_key r"
  by (simp add: applyUpdates_def)

lemma fieldUpdated_case: "fieldUpdated g old (case_option old (\<lambda>v. v) g)"
  by (cases g) (simp_all add: fieldUpdated_def)

lemma exactlyUpdated_applyUpdates: "exactlyUpdated u r (applyUpdates u r)"
  by (simp add: exactlyUpdated_def applyUpdates_def fieldUpdated_case)

lemma find_update_same:
  "find (\<lambda>r. id_key r = Some k) (map (\<lambda>r. if id_key r = Some k then applyUpdates u r else r) rs)
     = map_option (applyUpdates u) (find (\<lambda>r. id_key r = Some k) rs)"
  by (induction rs) (simp_all add: id_key_applyUpdates)

lemma find_update_other:
  "k' \<noteq> k \<Longrightarrow>
   find (\<lambda>r. id_key r = Some k') (map (\<lambda>r. if id_key r = Some k then applyUpdates u r else r) rs)
     = find (\<lambda>r. id_key r = Some k') rs"
  by (induction rs) (simp_all add: id_key_applyUpdates)

lemma map_update_absent:
  "\<not> list_ex (\<lambda>r. id_key r = Some k) rs \<Longrightarrow>
   map (\<lambda>r. if id_key r = Some k then applyUpdates u r else r) rs = rs"
  by (induction rs) simp_all

lemma find_Some_list_ex: "find P rs = Some r \<Longrightarrow> list_ex P rs"
  by (induction rs) (auto split: if_splits)

lemma bySearchQuery_filter: "bySearchQuery f rs = filter (textCriterion f) rs"
  by (simp add: bySearchQuery_def textCriterion_def[abs_def] split: option.split)

lemma byTags_filter: "byTags f rs = filter (tagsCriterion f) rs"
proof -
  have "(case tags r of None \<Rightarrow> False | Some ts \<Rightarrow> list_ex (\<lambda>tag. tag \<in> set fts) ts)
      = list_ex (\<lambda>t. hasTag t r) fts" for r fts
    by (auto simp: hasTag_def list_ex_iff split: option.split)
  then show ?thesis
    by (simp add: byTags_def tagsCriterion_def[abs_def] split: option.split)
qed

lemma byCategory_filter: "byCategory f rs = filter (categoryCriterion f) rs"
  by (simp add: byCategory_def categoryCriterion_def[abs_def] split: option.split)

lemma byStatus_filter: "byStatus f rs = filter (statusCriterion f) rs"
  by (simp add: byStatus_def statusCriterion_def[abs_def] split: option.split)

lemma byIsStudied_filter: "byIsStudied f rs = filter (studiedCriterion f) rs"
  by (simp add: byIsStudied_def studiedCriterion_def[abs_def] split: option.split)

lemma byPriority_filter: "byPriority f rs = filter (priorityCriterion f) rs"
  by (simp add: byPriority_def priorityCriterion_def[abs_def] split: option.split)

lemma byDateRange_filter: "byDateRange f rs = filter (dateCriterion f) rs"
  by (cases "f_dateFrom f"; cases "f_dateTo f")
    (simp_all add: byDateRange_def dateCriterion_def[abs_def] given_def)

lemma filters_compose:
  "byDateRange f (byPriority f (byIsStudied f (byStatus f (byCategory f (byTags f
     (bySearchQuery f rs)))))) = filter (allCriteria f) rs"
  unfolding bySearchQuery_filter byTags_filter byCategory_filter byStatus_filter
    byIsStudied_filter byPriority_filter byDateRange_filter filter_filter allCriteria_def
  by (rule filter_cong) auto

lemma scenarioD_criteria:
  "allCriteria scenarioD r \<longleftrightarrow> hasTag ''physics'' r \<and> isStudied r = Some False"
  by (simp add: allCriteria_def scenarioD_def noFilters_def textCriterion_def tagsCriterion_def
      categoryCriterion_def statusCriterion_def studiedCriterion_def priorityCriterion_def
      dateCriterion_def)

section \<open>Local store: update\<close>

text \<open>
  C5, as the code has it. While IndexedDB works, \<open>updateRecording\<close> never raises: for an
  id that no record has it resolves to 0 and leaves the table as it was. For an id that
  a record has it resolves as well, and reading the record back gives every property named
  in the update with its given value and every other property, the id included, as it
  was; the records of all other ids read back unchanged.
\<close>

theorem updateRecording_partial_fields:
  assumes "\<not> failing db"
  shows "(\<not> list_ex (\<lambda>r. id_key r = Some k) (recordings db) \<longrightarrow>
            updateRecording db k u = (Inr 0, db)) \<and>
         (\<forall>r. getRecording db k = Inr (Some r) \<longrightarrow>
            (\<exists>n r'. fst (updateRecording db k u) = Inr n \<and>
                  getRecording (snd (updateRecording db k u)) k = Inr (Some r') \<and>
                  exactlyUpdated u r r')) \<and>
         (\<forall>k'. k' \<noteq> k \<longrightarrow>
            getRecording (snd (updateRecording db k u)) k' = getRecording db k')"
proof (intro conjI allI impI)
  assume "\<not> list_ex (\<lambda>r. id_key r = Some k) (recordings db)"
  with assms show "updateRecording db k u = (Inr 0, db)"
    by (simp add: updateRecording_def table_update_def map_update_absent)
next
  fix r assume "getRecording db k = Inr (Some r)"
  with assms have f: "find (\<lambda>r. id_key r = Some k) (recordings db) = Some r"
    by (simp add: getRecording_def table_get_def)
  then have ex: "list_ex (\<lambda>r. id_key r = Some k) (recordings db)" by (rule find_Some_list_ex)
  from assms ex have "fst (updateRecording db k u) = Inr 1"
    by (simp add: updateRecording_def table_update_def)
  moreover from assms f
  have "getRecording (snd (updateRecording db k u)) k = Inr (Some (applyUpdates u r))"
    by (simp add: updateRecording_def table_update_def getRecording_def table_get_def
        find_update_same)
  ultimately show "\<exists>n r'. fst (updateRecording db k u) = Inr n \<and>
      getRecording (snd (updateRecording db k u)) k = Inr (Some r') \<and> exactlyUpdated u r r'"
    using exactlyUpdated_applyUpdates by blast
next
  fix k' :: nat assume "k' \<noteq> k"
  with assms show "getRecording (snd (updateRecording db k u)) k' = getRecording db k'"
    by (simp add: updateRecording_def table_update_def getRecording_def table_get_def
        find_update_other)
qed

theorem updateRecording_partial_fields_witness:
  "\<not> failing sampleDatabase \<and>
   updateRecording sampleDatabase 9 (noUpdates\<lparr>u_customName := Some (Some ''Optics I'')\<rparr>)
     = (Inr 0, sampleDatabase) \<and>
   getRecording sampleDatabase 1
     = Inr (Some (sampleRecording 1 ''Recording 2024-01-30'' 1706600000000)) \<and>
   (\<exists>n r'. fst (updateRecording sampleDatabase 1 (noUpdates\<lparr>u_customName := Some (Some ''Optics I'')\<rparr>))
           = Inr n \<and>
         getRecording
           (snd (updateRecording sampleDatabase 1 (noUpdates\<lparr>u_customName := Some (Some ''Optics I'')\<rparr>))) 1
           = Inr (Some r') \<and>
         exactlyUpdated (noUpdates\<lparr>u_customName := Some (Some ''Optics I'')\<rparr>)
           (sampleRecording 1 ''Recording 2024-01-30'' 1706600000000) r') \<and>
   getRecording
     (snd (updateRecording sampleDatabase 1 (noUpdates\<lparr>u_customName := Some (Some ''Optics I'')\<rparr>))) 2
     = getRecording sampleDatabase 2"
proof -
  let ?u = "noUpdates\<lparr>u_customName := Some (Some ''Optics I'')\<rparr>"
  have ok: "\<not> failing sampleDatabase" by (simp add: sampleDatabase_def)
  have absent: "\<not> list_ex (\<lambda>r. id_key r = Some 9) (recordings sampleDatabase)"
    by (simp add: sampleDatabase_def sampleRecording_def)
  have present: "getRecording sampleDatabase 1
      = Inr (Some (sampleRecording 1 ''Recording 2024-01-30'' 1706600000000))"
    by (simp add: getRecording_def table_get_def sampleDatabase_def sampleRecording_def)
  have other: "(2::nat) \<noteq> 1" by simp
  from updateRecording_partial_fields [OF ok, of 9 ?u] absent
  have a: "updateRecording sampleDatabase 9 ?u = (Inr 0, sampleDatabase)" by blast
  from updateRecording_partial_fields [OF ok, of 1 ?u] present other
  have b: "(\<exists>n r'. fst (updateRecording sampleDatabase 1 ?u) = Inr n \<and>
         getRecording (snd (updateRecording sampleDatabase 1 ?u)) 1 = Inr (Some r') \<and>
         exactlyUpdated ?u (sampleRecording 1 ''Recording 2024-01-30'' 1706600000000) r') \<and>
       getRecording (snd (updateRecording sampleDatabase 1 ?u)) 2 = getRecording sampleDatabase 2"
    by blast
  from ok a present b show ?thesis by blast
qed

text \<open>
  Against C5 as the specification words it ("fails if id absent"): on the empty table
  the update of id 7 resolves to 0; it does not raise.
\<close>

theorem updateRecording_absent_counterexample:
  "getRecording emptyDatabase 7 = Inr None \<and>
   updateRecording emptyDatabase 7 (noUpdates\<lparr>u_status := Some S_error\<rparr>)
     = (Inr 0, emptyDatabase)"
  by (simp add: getRecording_def table_get_def updateRecording_def table_update_def
      emptyDatabase_def)

section \<open>Local store: search and filter\<close>

text \<open>
  C9. A query that is empty or consists of white space only does not filter:
  \<open>searchRecordings\<close> gives what \<open>getAllRecordings\<close> gives, which while IndexedDB works
  is every stored recording, newest first.
\<close>

theorem searchRecordings_blank_query:
  assumes "list_all isWhiteSpace q"
  shows "searchRecordings db q = getAllRecordings db \<and>
         (\<not> failing db \<longrightarrow>
            (\<exists>rs. searchRecordings db q = Inr rs \<and> mset rs = mset (recordings db) \<and>
                  sorted_wrt (\<lambda>a b. date b \<le> date a) rs))"
proof -
  from assms have "trim q = []" by (simp only: trim_Nil_iff)
  then have same: "searchRecordings db q = getAllRecordings db"
    by (simp add: searchRecordings_def)
  have "sorted (map date (sort_key date (recordings db)))" by simp
  then have "sorted_wrt (\<lambda>a b. date a \<le> date b) (sort_key date (recordings db))"
    by (simp only: sorted_map)
  then have "sorted_wrt (\<lambda>a b. date b \<le> date a) (rev (sort_key date (recordings db)))"
    by (simp only: sorted_wrt_rev)
  then have "\<exists>rs. getAllRecordings db = Inr rs \<and> mset rs = mset (recordings db) \<and>
      sorted_wrt (\<lambda>a b. date b \<le> date a) rs" if "\<not> failing db"
    using that by (simp add: getAllRecordings_def table_orderByDateReverse_def)
  with same show ?thesis by simp
qed

theorem searchRecordings_blank_query_witness:
  "list_all isWhiteSpace [CHR '' '', CHR 0x09] \<and> \<not> failing sampleDatabase \<and>
   searchRecordings sampleDatabase [CHR '' '', CHR 0x09]
     = Inr [sampleRecording 2 ''Recording 2024-02-02'' 1706860000000,
            sampleRecording 1 ''Recording 2024-01-30'' 1706600000000]"
proof -
  have blank: "list_all isWhiteSpace [CHR '' '', CHR 0x09]" by (simp add: isWhiteSpace_def)
  have ok: "\<not> failing sampleDatabase" by (simp add: sampleDatabase_def)
  have "getAllRecordings sampleDatabase
      = Inr [sampleRecording 2 ''Recording 2024-02-02'' 1706860000000,
             sampleRecording 1 ''Recording 2024-01-30'' 1706600000000]"
    by (simp add: getAllRecordings_def table_orderByDateReverse_def sampleDatabase_def
        sampleRecording_def)
  with searchRecordings_blank_query [OF blank, of sampleDatabase] blank ok
  show ?thesis by simp
qed

text \<open>
  C7. While IndexedDB works, \<open>filterRecordings\<close> returns, newest first, exactly the
  records of which every supplied criterion holds (AND across the criteria), the tags
  criterion holding of a record that has any one of the tags asked for (OR within the
  list). For \<^verbatim>\<open>{tags: ["physics"], isStudied: false}\<close> these are the records that have
  the tag physics and whose \<^verbatim>\<open>isStudied\<close> is \<^verbatim>\<open>false\<close>; a record with only one of the
  two is left out.
\<close>

theorem filterRecordings_all_criteria:
  assumes "\<not> failing db"
  shows "filterRecordings db f = Inr (sortNewestFirst (filter (allCriteria f) (recordings db))) \<and>
         (\<exists>rs. filterRecordings db scenarioD = Inr rs \<and>
               set rs = {r \<in> set (recordings db). hasTag ''physics'' r \<and> isStudied r = Some False})"
proof -
  have general: "filterRecordings db g
      = Inr (sortNewestFirst (filter (allCriteria g) (recordings db)))" for g
    using assms by (simp add: filterRecordings_def table_toArray_def filters_compose)
  have "set (sortNewestFirst (filter (allCriteria scenarioD) (recordings db)))
      = {r \<in> set (recordings db). hasTag ''physics'' r \<and> isStudied r = Some False}"
    by (simp add: sortNewestFirst_def scenarioD_criteria)
  with general [of scenarioD] general [of f] show ?thesis by simp
qed

theorem filterRecordings_all_criteria_witness:
  "\<not> failing physicsDatabase \<and>
   filterRecordings physicsDatabase scenarioD
     = Inr [(sampleRecording 1 ''Optics'' 100)
              \<lparr>tags := Some [''lab'', ''physics''], isStudied := Some False\<rparr>]"
proof -
  have ok: "\<not> failing physicsDatabase" by (simp add: physicsDatabase_def)
  have "filter (allCriteria scenarioD) (recordings physicsDatabase)
      = [(sampleRecording 1 ''Optics'' 100)
           \<lparr>tags := Some [''lab'', ''physics''], isStudied := Some False\<rparr>]"
    by (simp add: scenarioD_criteria physicsDatabase_def hasTag_def sampleRecording_def)
  with filterRecordings_all_criteria [OF ok, of scenarioD] ok
  show ?thesis by (simp add: sortNewestFirst_def)
qed

text \<open>
  C6 at a failing input. The table holds a recording whose file name is
  \<^verbatim>\<open>Recording 2024-01-30\<close>. Its search text has the hyphens replaced by spaces; the
  query keeps its hyphens, so searching for the very file name finds nothing, by
  \<open>searchRecordings\<close> and by \<open>filterRecordings\<close> alike. The same words without the
  punctuation, in any letter case, find the recording.
\<close>

theorem search_punctuated_query_finds_nothing:
  "generateSearchText (sampleRecording 1 ''Recording 2024-01-30'' 1706600000000)
     = ''recording 2024 01 30'' \<and>
   searchRecordings sampleDatabase ''Recording 2024-01-30'' = Inr [] \<and>
   filterRecordings sampleDatabase (noFilters\<lparr>f_searchQuery := Some ''Recording 2024-01-30''\<rparr>)
     = Inr [] \<and>
   searchRecordings sampleDatabase ''RECORDING 2024 01 30''
     = Inr [sampleRecording 1 ''Recording 2024-01-30'' 1706600000000]"
proof -
  have "generateSearchText (sampleRecording 1 ''Recording 2024-01-30'' 1706600000000)
     = ''recording 2024 01 30''"
    by code_simp
  moreover have "searchRecordings sampleDatabase ''Recording 2024-01-30'' = Inr []"
    by code_simp
  moreover have "filterRecordings sampleDatabase
      (noFilters\<lparr>f_searchQuery := Some ''Recording 2024-01-30''\<rparr>) = Inr []"
    by code_simp
  moreover have "searchRecordings sampleDatabase ''RECORDING 2024 01 30''
      = Inr [sampleRecording 1 ''Recording 2024-01-30'' 1706600000000]"
    by code_simp
  ultimately show ?thesis by (simp only: simp_thms)
qed

section \<open>Transcription client: the size ceiling\<close>

lemma sizeMB_over: "sizeMB blob > 25 \<longleftrightarrow> blob_size blob > 25 * 1024 * 1024"
proof -
  have "sizeMB blob > 25 \<longleftrightarrow> real (blob_size blob) > 25 * (1024 * 1024)"
    unfolding sizeMB_def by (simp add: pos_less_divide_eq)
  also have "\<dots> \<longleftrightarrow> real (blob_size blob) > real (25 * 1024 * 1024)" by simp
  also have "\<dots> \<longleftrightarrow> blob_size blob > 25 * 1024 * 1024" by (simp only: of_nat_less_iff)
  finally show ?thesis .
qed

lemma toFixed1_sizeMB:
  "toFixed1 (sizeMB blob) =
     (let n = (20 * blob_size blob + 1048576) div 2097152
      in showNat (n div 10) @ ''.'' @ showNat (n mod 10))"
proof -
  have "sizeMB blob * 10 + 1 / 2 = real (20 * blob_size blob + 1048576) / real 2097152"
    by (simp add: sizeMB_def field_simps)
  then have "\<lfloor>sizeMB blob * 10 + 1 / 2\<rfloor> = int ((20 * blob_size blob + 1048576) div 2097152)"
    by (simp only: floor_divide_of_nat_eq)
  then show ?thesis by (simp only: toFixed1_def nat_int)
qed



text \<open>
  C4. A payload of at most 25 MB, \<open>25 * 1024 * 1024\<close> bytes exactly included, passes the
  size check: the provider's SDK is called with the file, and a non-blank reply is
  returned trimmed. A payload of even one byte more is rejected with the message
  \<^verbatim>\<open>Audio file too large (...MB). Whisper API supports files up to 25MB. ...\<close>, and no
  call to the SDK is made.
\<close>

theorem transcribeAudio_size_ceiling:
  "(blob_size blob \<le> 25 * 1024 * 1024 \<longrightarrow>
      snd (transcribeAudio answer blob key) = [WhisperCall (audioFile blob) key] \<and>
      (\<forall>reply. answer = Responds reply \<and> trim reply \<noteq> [] \<longrightarrow>
         fst (transcribeAudio answer blob key) = Inr (trim reply))) \<and>
   (blob_size blob > 25 * 1024 * 1024 \<longrightarrow>
      transcribeAudio answer blob key = (Inl (JsError (tooLargeMessage blob)), []))"
proof (intro conjI impI allI)
  assume "blob_size blob \<le> 25 * 1024 * 1024"
  then have small: "\<not> sizeMB blob > 25" by (simp add: sizeMB_over)
  then show "snd (transcribeAudio answer blob key) = [WhisperCall (audioFile blob) key]"
    by (cases answer) (simp_all add: transcribeAudio_def transcribeAudio_try_def)
  fix reply assume "answer = Responds reply \<and> trim reply \<noteq> []"
  moreover from this have "reply \<noteq> []" by (auto simp: trim_def)
  ultimately show "fst (transcribeAudio answer blob key) = Inr (trim reply)"
    using small by (simp add: transcribeAudio_def transcribeAudio_try_def)
next
  assume "blob_size blob > 25 * 1024 * 1024"
  then have "sizeMB blob > 25" by (simp add: sizeMB_over)
  then show "transcribeAudio answer blob key = (Inl (JsError (tooLargeMessage blob)), [])"
    by (simp add: transcribeAudio_def transcribeAudio_try_def transcribeAudio_catch_def)
qed


theorem transcribeAudio_size_ceiling_witness:
  "blob_size \<lparr>blob_size = 26214400, blob_type = ''audio/webm''\<rparr> \<le> 25 * 1024 * 1024 \<and>
   transcribeAudio (Responds ''Hello world '') \<lparr>blob_size = 26214400, blob_type = ''audio/webm''\<rparr>
       ''sk-test''
     = (Inr ''Hello world'',
        [WhisperCall \<lparr>blob_size = 26214400, blob_type = ''audio/webm''\<rparr> ''sk-test'']) \<and>
   blob_size \<lparr>blob_size = 26214401, blob_type = ''audio/webm''\<rparr> > 25 * 1024 * 1024 \<and>
   transcribeAudio (Responds ''Hello world '') \<lparr>blob_size = 26214401, blob_type = ''audio/webm''\<rparr>
       ''sk-test''
     = (Inl (JsError (''Audio file too large (25.0MB). ''
           @ ''Whisper API supports files up to 25MB. Consider recording shorter segments.'')),
        [])"
proof -
  let ?at = "\<lparr>blob_size = 26214400, blob_type = ''audio/webm''\<rparr>"
  let ?over = "\<lparr>blob_size = 26214401, blob_type = ''audio/webm''\<rparr>"
  have at: "blob_size ?at \<le> 25 * 1024 * 1024" by simp
  have over: "blob_size ?over > 25 * 1024 * 1024" by simp
  have reply: "trim ''Hello world '' = ''Hello world''"
    by (simp add: trim_def isWhiteSpace_def)
  have msg: "tooLargeMessage ?over = ''Audio file too large (25.0MB). ''
      @ ''Whisper API supports files up to 25MB. Consider recording shorter segments.''"
    by (simp add: tooLargeMessage_def toFixed1_sizeMB digitChar_def)
  have sent: "audioFile ?at = ?at" by (simp add: audioFile_def)
  from transcribeAudio_size_ceiling [of ?at "Responds ''Hello world ''" "''sk-test''"] at reply
  have "snd (transcribeAudio (Responds ''Hello world '') ?at ''sk-test'')
        = [WhisperCall (audioFile ?at) ''sk-test''] \<and>
      fst (transcribeAudio (Responds ''Hello world '') ?at ''sk-test'') = Inr ''Hello world''"
    by simp
  with sent have a: "transcribeAudio (Responds ''Hello world '') ?at ''sk-test''
      = (Inr ''Hello world'', [WhisperCall ?at ''sk-test''])"
    by (simp add: prod_eq_iff)
  from transcribeAudio_size_ceiling [of ?over "Responds ''Hello world ''" "''sk-test''"] over
  have "transcribeAudio (Responds ''Hello world '') ?over ''sk-test''
      = (Inl (JsError (tooLargeMessage ?over)), [])" by blast
  with msg have b: "transcribeAudio (Responds ''Hello world '') ?over ''sk-test''
      = (Inl (JsError (''Audio file too large (25.0MB). ''
           @ ''Whisper API supports files up to 25MB. Consider recording shorter segments.'')),
        [])" by (simp only:)
  from at a over b show ?thesis by blast
qed

section \<open>Facts about the workflow\<close>

lemma sameShape_refl: "sameShape w w"
  by (simp add: sameShape_def)

lemma sameShape_trans: "sameShape a b \<Longrightarrow> sameShape b c \<Longrightarrow> sameShape a c"
  by (simp add: sameShape_def)

lemma quietStep_refl: "quietStep w w"
  by (simp add: quietStep_def)

lemma quietStep_trans: "quietStep a b \<Longrightarrow> quietStep b c \<Longrightarrow> quietStep a c"
  unfolding quietStep_def by (metis append.assoc list_all_append)

lemma bindIO_snd:
  assumes m: "\<And>v. R v (snd (m v))" and f: "\<And>x v. R v (snd (f x v))"
    and trans: "\<And>a b c. R a b \<Longrightarrow> R b c \<Longrightarrow> R a c"
  shows "R w (snd (bindIO m f w))"
proof (cases "m w")
  case (Pair res w')
  with m [of w] have step: "R w w'" by simp
  show ?thesis
  proof (cases res)
    case (Inl e)
    with Pair step show ?thesis by (simp add: bindIO_def)
  next
    case (Inr x)
    with Pair have "snd (bindIO m f w) = snd (f x w')" by (simp add: bindIO_def)
    with f [of w' x] step show ?thesis by (metis trans)
  qed
qed

lemma bindIO_Inl:
  assumes "fst (bindIO m f w) = Inl e"
    and m: "\<And>v e. fst (m v) = Inl e \<Longrightarrow> P e" and f: "\<And>x v e. fst (f x v) = Inl e \<Longrightarrow> P e"
  shows "P e"
proof (cases "m w")
  case (Pair res w')
  show ?thesis
  proof (cases res)
    case (Inl e')
    with Pair assms(1) have "fst (m w) = Inl e" by (simp add: bindIO_def)
    then show ?thesis by (rule m)
  next
    case (Inr x)
    with Pair assms(1) have "fst (f x w') = Inl e" by (simp add: bindIO_def)
    then show ?thesis by (rule f)
  qed
qed


lemma id_keys_update:
  "map id_key (map (\<lambda>r. if id_key r = Some k then applyUpdates u r else r) rs) = map id_key rs"
  by (induction rs) (simp_all add: id_key_applyUpdates)

lemma updateRecordingIO_shape: "sameShape w (snd (updateRecordingIO k u w))"
  by (simp add: sameShape_def updateRecordingIO_def updateRecording_def table_update_def
      id_keys_update id_key_applyUpdates split: prod.split sum.split)

lemma transcribeAudioIO_shape: "sameShape w (snd (transcribeAudioIO env b k w))"
  by (simp add: sameShape_def transcribeAudioIO_def split: prod.split)

lemma generateNotesIO_shape: "sameShape w (snd (generateNotesIO env t k w))"
  by (simp add: sameShape_def generateNotesIO_def split: prod.split)

lemma simple_shape:
  "sameShape w (snd (returnIO x w))" "sameShape w (snd (throwIO e w))"
  "sameShape w (snd (setIsProcessing b w))" "sameShape w (snd (setProcessingError m w))"
  "sameShape w (snd (setShowNotes b w))"
  by (simp_all add: sameShape_def returnIO_def throwIO_def setIsProcessing_def
      setProcessingError_def setShowNotes_def)

lemmas shape_steps = simple_shape updateRecordingIO_shape transcribeAudioIO_shape
  generateNotesIO_shape

lemma bindIO_shape:
  assumes "\<And>v. sameShape v (snd (m v))" and "\<And>x v. sameShape v (snd (f x v))"
  shows "sameShape w (snd (bindIO m f w))"
  using assms sameShape_trans by (rule bindIO_snd)

lemma transcriptionStep_shape: "sameShape w (snd (transcriptionStep env recording rid w))"
proof (cases "orEmpty (openaiKey env) = []")
  case True
  then show ?thesis by (simp add: transcriptionStep_def simple_shape)
next
  case False
  then have "transcriptionStep env recording rid =
      bindIO (updateRecordingIO rid (noUpdates\<lparr>u_status := Some S_transcribing\<rparr>)) (\<lambda>_.
        bindIO (transcribeAudioIO env (audioBlob recording) (orEmpty (openaiKey env)))
          (\<lambda>transcriptText.
        bindIO (updateRecordingIO rid
                  (noUpdates\<lparr>u_transcript := Some (Some transcriptText),
                             u_status := Some S_transcribed\<rparr>)) (\<lambda>_.
        returnIO transcriptText)))"
    by (simp add: transcriptionStep_def)
  then show ?thesis by (simp only:) (intro bindIO_shape shape_steps)
qed

lemma notesStep_shape: "sameShape w (snd (notesStep env rid t w))"
proof (cases "orEmpty (anthropicKey env) = [] \<or> t = [] \<or> length (trim t) = 0")
  case True
  then show ?thesis by (auto simp: notesStep_def simple_shape)
next
  case False
  then have "notesStep env rid t =
      bindIO (updateRecordingIO rid (noUpdates\<lparr>u_status := Some S_generating_notes\<rparr>)) (\<lambda>_.
        bindIO (generateNotesIO env t (orEmpty (anthropicKey env))) (\<lambda>notes.
        bindIO (updateRecordingIO rid
                  (noUpdates\<lparr>u_notesText := Some (Some notes), u_status := Some S_complete\<rparr>)) (\<lambda>_.
        setShowNotes True)))"
    by (simp add: notesStep_def)
  then show ?thesis by (simp only:) (intro bindIO_shape shape_steps)
qed

lemma tryBlock_shape: "sameShape w (snd (tryBlock env recording rid w))"
  unfolding tryBlock_def
  by (intro bindIO_shape shape_steps notesStep_shape)
    (simp add: transcriptionStep_shape simple_shape)


lemma catch_gives_Error:
  "instanceofError (transcribeAudio_catch e)" "instanceofError (generateNotes_catch e)"
  by (cases e; simp add: transcribeAudio_catch_def generateNotes_catch_def)+

lemma updateRecordingIO_throws: "fst (updateRecordingIO k u w) = Inl e \<Longrightarrow> instanceofError e"
  by (auto simp: updateRecordingIO_def updateRecording_def table_update_def
      split: prod.splits sum.splits if_splits)

lemma transcribeAudioIO_throws:
  "fst (transcribeAudioIO env b k w) = Inl e \<Longrightarrow> instanceofError e"
  by (auto simp: transcribeAudioIO_def transcribeAudio_def catch_gives_Error
      split: prod.splits sum.splits)

lemma generateNotesIO_throws:
  "fst (generateNotesIO env t k w) = Inl e \<Longrightarrow> instanceofError e"
  by (auto simp: generateNotesIO_def generateNotes_def catch_gives_Error
      split: prod.splits sum.splits)

lemma simple_throws:
  "fst (returnIO x w) = Inl e \<Longrightarrow> instanceofError e"
  "fst (throwIO (JsError m) w) = Inl e \<Longrightarrow> instanceofError e"
  "fst (setIsProcessing b w) = Inl e \<Longrightarrow> instanceofError e"
  "fst (setProcessingError err w) = Inl e \<Longrightarrow> instanceofError e"
  "fst (setShowNotes b w) = Inl e \<Longrightarrow> instanceofError e"
  by (auto simp: returnIO_def throwIO_def setIsProcessing_def setProcessingError_def
      setShowNotes_def)

lemmas throw_steps = simple_throws updateRecordingIO_throws transcribeAudioIO_throws
  generateNotesIO_throws

lemma bindIO_throws:
  assumes "fst (bindIO m f w) = Inl e"
    and "\<And>v e. fst (m v) = Inl e \<Longrightarrow> instanceofError e"
    and "\<And>x v e. fst (f x v) = Inl e \<Longrightarrow> instanceofError e"
  shows "instanceofError e"
  using assms by (rule bindIO_Inl)

lemma transcriptionStep_throws:
  assumes "fst (transcriptionStep env recording rid w) = Inl e"
  shows "instanceofError e"
proof (cases "orEmpty (openaiKey env) = []")
  case True
  with assms show ?thesis by (auto simp: transcriptionStep_def throwIO_def)
next
  case False
  with assms have "fst (bindIO (updateRecordingIO rid (noUpdates\<lparr>u_status := Some S_transcribing\<rparr>)) (\<lambda>_.
        bindIO (transcribeAudioIO env (audioBlob recording) (orEmpty (openaiKey env)))
          (\<lambda>transcriptText.
        bindIO (updateRecordingIO rid
                  (noUpdates\<lparr>u_transcript := Some (Some transcriptText),
                             u_status := Some S_transcribed\<rparr>)) (\<lambda>_.
        returnIO transcriptText))) w) = Inl e"
    by (simp add: transcriptionStep_def)
  then show ?thesis
    by (elim bindIO_throws throw_steps)
qed

lemma notesStep_throws:
  assumes "fst (notesStep env rid t w) = Inl e"
  shows "instanceofError e"
proof (cases "orEmpty (anthropicKey env) = [] \<or> t = [] \<or> length (trim t) = 0")
  case True
  with assms show ?thesis by (auto simp: notesStep_def throwIO_def split: if_splits)
next
  case False
  with assms have "fst (bindIO (updateRecordingIO rid (noUpdates\<lparr>u_status := Some S_generating_notes\<rparr>)) (\<lambda>_.
        bindIO (generateNotesIO env t (orEmpty (anthropicKey env))) (\<lambda>notes.
        bindIO (updateRecordingIO rid
                  (noUpdates\<lparr>u_notesText := Some (Some notes), u_status := Some S_complete\<rparr>)) (\<lambda>_.
        setShowNotes True))) w) = Inl e"
    by (simp add: notesStep_def)
  then show ?thesis
    by (elim bindIO_throws throw_steps)
qed

lemma tryBlock_throws:
  assumes "fst (tryBlock env recording rid w) = Inl e"
  shows "instanceofError e"
  using assms unfolding tryBlock_def
  by (elim bindIO_throws throw_steps notesStep_throws)
    (auto split: if_splits elim: transcriptionStep_throws simple_throws)


lemma same_ids_find:
  assumes "map id_key xs = map id_key ys"
    and "find (\<lambda>r. id_key r = Some k) xs = Some r"
  shows "\<exists>r'. find (\<lambda>r. id_key r = Some k) ys = Some r'"
proof -
  from assms(2) have "list_ex (\<lambda>r. id_key r = Some k) xs" by (rule find_Some_list_ex)
  then have "Some k \<in> set (map id_key xs)" by (force simp: list_ex_iff)
  with assms(1) have "\<exists>y \<in> set ys. id_key y = Some k" by auto
  then have "find (\<lambda>r. id_key r = Some k) ys \<noteq> None" by (auto simp: find_None_iff)
  then show ?thesis by auto
qed

lemma catchBlock_records:
  assumes "\<not> failing (database w)"
    and "find (\<lambda>r. id_key r = Some rid) (recordings (database w)) = Some r"
    and "instanceofError e"
  shows "fst (catchBlock rid e w) = Inr ()"
    and "\<exists>r'. getRecording (database (snd (catchBlock rid e w))) rid = Inr (Some r') \<and>
           status r' = S_error \<and> errorMessage r' = Some (message e)"
    and "processingError (ui (snd (catchBlock rid e w))) = Some (message e)"
  using assms
  by (simp_all add: catchBlock_def bindIO_def setProcessingError_def updateRecordingIO_def
      updateRecording_def table_update_def returnIO_def getRecording_def table_get_def
      find_update_same applyUpdates_def noUpdates_def Let_def)

lemma handleGenerateNotes_caught:
  assumes "id_key recording = Some rid" and "rid \<noteq> 0"
    and "fst (tryBlock env recording rid w) = Inl e"
  shows "fst (handleGenerateNotes env recording w)
           = fst (catchBlock rid e (snd (tryBlock env recording rid w)))"
    and "database (snd (handleGenerateNotes env recording w))
           = database (snd (catchBlock rid e (snd (tryBlock env recording rid w))))"
    and "processingError (ui (snd (handleGenerateNotes env recording w)))
           = processingError (ui (snd (catchBlock rid e (snd (tryBlock env recording rid w)))))"
    and "isProcessing (ui (snd (handleGenerateNotes env recording w))) = False"
  using assms
  by (cases "tryBlock env recording rid w";
      simp add: handleGenerateNotes_def split: prod.split)+

section \<open>Workflow: failures become state\<close>

text \<open>
  What the \<^verbatim>\<open>catch\<close> block does with a value \<open>e\<close> thrown by the \<^verbatim>\<open>try\<close> block, when
  IndexedDB works and the table holds a record under the recording's id.
\<close>

lemma handleGenerateNotes_catches:
  assumes "\<not> failing (database w)"
    and "id_key recording = Some rid" and "rid \<noteq> 0"
    and "getRecording (database w) rid = Inr (Some r)"
    and "fst (tryBlock env recording rid w) = Inl e"
  shows "instanceofError e \<and>
         fst (handleGenerateNotes env recording w) = Inr () \<and>
         (\<exists>r'. getRecording (database (snd (handleGenerateNotes env recording w))) rid
                 = Inr (Some r') \<and>
               status r' = S_error \<and> errorMessage r' = Some (message e)) \<and>
         processingError (ui (snd (handleGenerateNotes env recording w))) = Some (message e) \<and>
         isProcessing (ui (snd (handleGenerateNotes env recording w))) = False"
proof -
  let ?w1 = "snd (tryBlock env recording rid w)"
  from assms(5) have err: "instanceofError e" by (rule tryBlock_throws)
  have shape: "sameShape w ?w1" by (rule tryBlock_shape)
  with assms(1) have ok: "\<not> failing (database ?w1)" by (simp add: sameShape_def)
  from assms(1,4) have "find (\<lambda>r. id_key r = Some rid) (recordings (database w)) = Some r"
    by (simp add: getRecording_def table_get_def)
  with shape obtain r1 where
    r1: "find (\<lambda>r. id_key r = Some rid) (recordings (database ?w1)) = Some r1"
    unfolding sameShape_def by (metis same_ids_find)
  note caught = handleGenerateNotes_caught [OF assms(2,3,5)]
  note recorded = catchBlock_records [OF ok r1 err]
  from err caught recorded show ?thesis by (simp only: simp_thms)
qed


lemmas workflow_defs =
  handleGenerateNotes_def tryBlock_def catchBlock_def transcriptionStep_def notesStep_def
  bindIO_def returnIO_def throwIO_def setIsProcessing_def setProcessingError_def
  setShowNotes_def updateRecordingIO_def transcribeAudioIO_def generateNotesIO_def
  updateRecording_def table_update_def getRecording_def table_get_def
  transcribeAudio_def transcribeAudio_try_def transcribeAudio_catch_def sizeMB_def
  generateNotes_def generateNotes_try_def generateNotes_catch_def audioFile_def
  orEmpty_def trim_def isWhiteSpace_def Let_def

lemmas sample_defs =
  scenarioB_def scenarioC_def sampleWorld_def sampleDatabase_def sampleRecording_def
  completeRecording_def completeWorld_def idleUi_def emptyDatabase_def
  transcribedRecording_def transcribedWorld_def brokenWorld_def noAnthropicKey_def
  idleControls_def

text \<open>When IndexedDB is out of order, the write of the \<^verbatim>\<open>catch\<close> block fails as well.\<close>

lemma handleGenerateNotes_store_failing:
  assumes "failing (database w)" and "id_key recording = Some rid" and "rid \<noteq> 0"
  shows "fst (handleGenerateNotes env recording w)
           = Inl (JsError ''Failed to update recording in database'')"
  using assms
  by (simp add: handleGenerateNotes_def tryBlock_def catchBlock_def transcriptionStep_def
      notesStep_def bindIO_def returnIO_def throwIO_def setIsProcessing_def
      setProcessingError_def updateRecordingIO_def updateRecording_def table_update_def
      Let_def)

text \<open>A failure of the capture service at the start of a recording.\<close>

lemma initialize_throws_Error:
  "fst (initialize access supported r) = Inl e \<Longrightarrow> instanceofError e"
  by (auto simp: initialize_def Let_def split: mediaAccess.splits option.splits)

lemma handleStartRecording_failure:
  assumes "fst (initialize access supported newAudioRecorder) = Inl e"
  shows "controlsError (handleStartRecording access supported now c) = Some (message e) \<and>
         isRecording (handleStartRecording access supported now c) = isRecording c"
proof -
  from assms have err: "instanceofError e" by (rule initialize_throws_Error)
  obtain res r where i: "initialize access supported newAudioRecorder = (res, r)"
    by (cases "initialize access supported newAudioRecorder")
  with assms have "res = Inl e" by simp
  with i err show ?thesis by (simp add: handleStartRecording_def)
qed

text \<open>
  C3, as the code has it. A failure raised in the \<^verbatim>\<open>try\<close> block of
  \<open>handleGenerateNotes\<close>, be it a missing key, a missing transcript or a failure of one
  of the two clients, becomes state of the record when IndexedDB works and the table
  holds a record under the recording's truthy id: the value thrown is an \<^verbatim>\<open>Error\<close>, the
  handler completes without throwing, the stored record has status \<^verbatim>\<open>error\<close> and the
  message as its \<^verbatim>\<open>errorMessage\<close>, and the component shows the message and is no longer
  processing. A failure of the capture service does not reach this handler: when
  \<^verbatim>\<open>initialize()\<close> fails, \<open>handleStartRecording\<close> shows its message in the recording
  controls and no recording is begun; no record is written.
\<close>

theorem handleGenerateNotes_failure_recorded:
  "(\<not> failing (database w) \<and> id_key recording = Some rid \<and> rid \<noteq> 0 \<and>
    getRecording (database w) rid = Inr (Some r) \<and>
    fst (tryBlock env recording rid w) = Inl e \<longrightarrow>
      instanceofError e \<and>
      fst (handleGenerateNotes env recording w) = Inr () \<and>
      (\<exists>r'. getRecording (database (snd (handleGenerateNotes env recording w))) rid
              = Inr (Some r') \<and>
            status r' = S_error \<and> errorMessage r' = Some (message e)) \<and>
      processingError (ui (snd (handleGenerateNotes env recording w))) = Some (message e) \<and>
      isProcessing (ui (snd (handleGenerateNotes env recording w))) = False) \<and>
   (fst (initialize access isTypeSupported newAudioRecorder) = Inl e' \<longrightarrow>
      controlsError (handleStartRecording access isTypeSupported now c) = Some (message e') \<and>
      isRecording (handleStartRecording access isTypeSupported now c) = isRecording c)"
  using handleGenerateNotes_catches [of w recording rid r env e]
    handleStartRecording_failure [of access isTypeSupported e' now c]
  by blast

theorem handleGenerateNotes_failure_recorded_witness:
  "\<not> failing (database sampleWorld) \<and>
   getRecording (database sampleWorld) 1
     = Inr (Some (sampleRecording 1 ''Recording 2024-01-30'' 1706600000000)) \<and>
   fst (tryBlock scenarioC (sampleRecording 1 ''Recording 2024-01-30'' 1706600000000) 1
          sampleWorld)
     = Inl (JsError ''Invalid OpenAI API key. Please check your API key in Settings.'') \<and>
   fst (handleGenerateNotes scenarioC
          (sampleRecording 1 ''Recording 2024-01-30'' 1706600000000) sampleWorld) = Inr () \<and>
   (\<exists>r'. getRecording
           (database (snd (handleGenerateNotes scenarioC
              (sampleRecording 1 ''Recording 2024-01-30'' 1706600000000) sampleWorld))) 1
           = Inr (Some r') \<and>
         status r' = S_error \<and>
         errorMessage r'
           = Some ''Invalid OpenAI API key. Please check your API key in Settings.'') \<and>
   fst (initialize (Refused ''NotAllowedError'') (\<lambda>m. True) newAudioRecorder)
     = Inl (JsError (''Microphone permission denied. ''
          @ ''Please allow microphone access in your browser settings.'')) \<and>
   controlsError (handleStartRecording (Refused ''NotAllowedError'') (\<lambda>m. True) 0 idleControls)
     = Some (''Microphone permission denied. ''
          @ ''Please allow microphone access in your browser settings.'') \<and>
   isRecording (handleStartRecording (Refused ''NotAllowedError'') (\<lambda>m. True) 0 idleControls)
     = False"
proof -
  let ?r = "sampleRecording 1 ''Recording 2024-01-30'' 1706600000000"
  let ?e = "JsError ''Invalid OpenAI API key. Please check your API key in Settings.''"
  let ?e' = "JsError (''Microphone permission denied. ''
      @ ''Please allow microphone access in your browser settings.'')"
  have ok: "\<not> failing (database sampleWorld)" by (simp add: sample_defs)
  have key: "id_key ?r = Some 1" by (simp add: sample_defs)
  have nz: "(1::nat) \<noteq> 0" by simp
  have row: "getRecording (database sampleWorld) 1 = Inr (Some ?r)"
    by (simp add: getRecording_def table_get_def sample_defs)
  have thrown: "fst (tryBlock scenarioC ?r 1 sampleWorld) = Inl ?e"
    by (simp add: workflow_defs sample_defs)
  have refused: "fst (initialize (Refused ''NotAllowedError'') (\<lambda>m. True) newAudioRecorder)
      = Inl ?e'"
    by (simp add: initialize_def)
  have idle: "isRecording idleControls = False" by (simp add: idleControls_def)
  note at_sample = handleGenerateNotes_failure_recorded
    [of sampleWorld ?r 1 ?r scenarioC ?e "Refused ''NotAllowedError''" "\<lambda>m. True" ?e' 0
      idleControls]
  from at_sample ok key nz row thrown
  have stored: "fst (handleGenerateNotes scenarioC ?r sampleWorld) = Inr () \<and>
      (\<exists>r'. getRecording (database (snd (handleGenerateNotes scenarioC ?r sampleWorld))) 1
              = Inr (Some r') \<and>
            status r' = S_error \<and> errorMessage r' = Some (message ?e))"
    by blast
  from at_sample refused
  have shown: "controlsError
        (handleStartRecording (Refused ''NotAllowedError'') (\<lambda>m. True) 0 idleControls)
        = Some (message ?e') \<and>
      isRecording (handleStartRecording (Refused ''NotAllowedError'') (\<lambda>m. True) 0 idleControls)
        = isRecording idleControls"
    by blast
  from ok row thrown stored refused shown idle show ?thesis by simp
qed

text \<open>
  Against C3 as worded, for every failure: the transcribed recording, no Anthropic key
  configured, IndexedDB out of order. The \<^verbatim>\<open>try\<close> block raises the missing key, a
  failure of a precondition; the write of the \<^verbatim>\<open>catch\<close> block fails in its turn, its
  error leaves the handler, and the record is as it was, with status
  \<^verbatim>\<open>transcribed\<close> and no error message.
\<close>

theorem handleGenerateNotes_store_failing_counterexample:
  "id_key transcribedRecording = Some 1 \<and>
   fst (tryBlock noAnthropicKey transcribedRecording 1 brokenWorld)
     = Inl (JsError ''Anthropic API key not configured. Please add your API key in Settings.'') \<and>
   fst (handleGenerateNotes noAnthropicKey transcribedRecording brokenWorld)
     = Inl (JsError ''Failed to update recording in database'') \<and>
   recordings (database (snd (handleGenerateNotes noAnthropicKey transcribedRecording brokenWorld)))
     = [transcribedRecording] \<and>
   status transcribedRecording = S_transcribed \<and> errorMessage transcribedRecording = None"
  by (simp add: workflow_defs sample_defs)

section \<open>Workflow: a complete record\<close>

text \<open>
  C1, as the code has it. The guard on status \<^verbatim>\<open>complete\<close> is the button's: for a
  recording shown with status \<^verbatim>\<open>complete\<close> the button is disabled and a click changes
  nothing, neither the table nor the component's state, and makes no call.
\<close>

theorem clickGenerateNotes_complete_blocked:
  assumes "status recording = S_complete"
  shows "generateNotesDisabled recording w \<and> clickGenerateNotes env recording w = (Inr (), w)"
  using assms by (simp add: clickGenerateNotes_def generateNotesDisabled_def)

theorem clickGenerateNotes_complete_blocked_witness:
  "status completeRecording = S_complete \<and>
   clickGenerateNotes scenarioB completeRecording completeWorld = (Inr (), completeWorld)"
proof -
  have st: "status completeRecording = S_complete" by (simp add: sample_defs)
  from clickGenerateNotes_complete_blocked [OF st, of completeWorld scenarioB] st
  show ?thesis by simp
qed

text \<open>
  Against C1 as worded for \<open>handleGenerateNotes\<close> itself: the handler has no guard on the
  status. Called on a complete record that has a transcript, with the notes provider
  answering, it overwrites the stored notes.
\<close>

theorem handleGenerateNotes_complete_counterexample:
  "status completeRecording = S_complete \<and>
   getRecording (database completeWorld) 1 = Inr (Some completeRecording) \<and>
   notesText completeRecording = Some ''## First notes'' \<and>
   getRecording (database (snd (handleGenerateNotes scenarioB completeRecording completeWorld))) 1
     = Inr (Some (completeRecording\<lparr>notesText := Some (''## Summary'' @ [CHR 0x0A] @ ''- point'')\<rparr>))"
  by (simp add: workflow_defs sample_defs applyUpdates_def noUpdates_def)

section \<open>Workflow: a transcript is already there\<close>

lemma bindIO_quiet:
  assumes "\<And>v. quietStep v (snd (m v))" and "\<And>x v. quietStep v (snd (f x v))"
  shows "quietStep w (snd (bindIO m f w))"
  using assms quietStep_trans by (rule bindIO_snd)

lemma transcript_applyUpdates:
  "u_transcript u = None \<Longrightarrow> transcript (applyUpdates u r) = transcript r"
  by (simp add: applyUpdates_def)

lemma transcripts_update:
  "u_transcript u = None \<Longrightarrow>
   map transcript (map (\<lambda>r. if id_key r = Some k then applyUpdates u r else r) rs)
     = map transcript rs"
  by (induction rs) (simp_all add: transcript_applyUpdates)

lemma updateRecordingIO_quiet:
  assumes "u_transcript u = None" and "u_status u \<noteq> Some S_transcribing"
  shows "quietStep w (snd (updateRecordingIO k u w))"
proof (cases "failing (database w)")
  case True
  with assms show ?thesis
    by (simp add: quietStep_def quietEvent_def given_def updateRecordingIO_def
        updateRecording_def table_update_def)
next
  case False
  with assms transcripts_update [OF assms(1), of k "recordings (database w)"] show ?thesis
    by (simp add: quietStep_def quietEvent_def given_def updateRecordingIO_def
        updateRecording_def table_update_def del: map_map)
qed

lemma generateNotesIO_quiet: "quietStep w (snd (generateNotesIO env t k w))"
  by (cases "claude env")
    (simp_all add: quietStep_def quietEvent_def generateNotesIO_def generateNotes_def
      generateNotes_try_def Let_def)

lemma simple_quiet:
  "quietStep w (snd (returnIO x w))" "quietStep w (snd (throwIO e w))"
  "quietStep w (snd (setIsProcessing b w))" "quietStep w (snd (setProcessingError m w))"
  "quietStep w (snd (setShowNotes b w))"
  by (simp_all add: quietStep_def returnIO_def throwIO_def setIsProcessing_def
      setProcessingError_def setShowNotes_def)

lemma notesStep_quiet: "quietStep w (snd (notesStep env rid t w))"
proof (cases "orEmpty (anthropicKey env) = [] \<or> t = [] \<or> length (trim t) = 0")
  case True
  then show ?thesis by (auto simp: notesStep_def simple_quiet)
next
  case False
  then have "notesStep env rid t =
      bindIO (updateRecordingIO rid (noUpdates\<lparr>u_status := Some S_generating_notes\<rparr>)) (\<lambda>_.
        bindIO (generateNotesIO env t (orEmpty (anthropicKey env))) (\<lambda>notes.
        bindIO (updateRecordingIO rid
                  (noUpdates\<lparr>u_notesText := Some (Some notes), u_status := Some S_complete\<rparr>)) (\<lambda>_.
        setShowNotes True)))"
    by (simp add: notesStep_def)
  then show ?thesis
    by (simp only:)
      (intro bindIO_quiet updateRecordingIO_quiet generateNotesIO_quiet simple_quiet;
        simp add: noUpdates_def)
qed

lemma catchBlock_quiet: "quietStep w (snd (catchBlock rid e w))"
  unfolding catchBlock_def Let_def
  by (intro bindIO_quiet updateRecordingIO_quiet simple_quiet; simp add: noUpdates_def)

lemma tryBlock_with_transcript:
  assumes "transcript recording = Some t" and "t \<noteq> []"
  shows "tryBlock env recording rid =
     bindIO (setIsProcessing True) (\<lambda>_.
     bindIO (setProcessingError None) (\<lambda>_. notesStep env rid t))"
proof -
  have "bindIO (returnIO t) (notesStep env rid) = notesStep env rid t"
    by (rule ext) (simp add: bindIO_def returnIO_def)
  with assms show ?thesis by (simp add: tryBlock_def orEmpty_def)
qed

lemma tryBlock_quiet:
  assumes "transcript recording = Some t" and "t \<noteq> []"
  shows "quietStep w (snd (tryBlock env recording rid w))"
  unfolding tryBlock_with_transcript [OF assms]
  by (intro bindIO_quiet simple_quiet notesStep_quiet)

lemma quietStep_ui: "quietStep w w' \<Longrightarrow> quietStep w (w'\<lparr>ui := x\<rparr>)"
  by (simp add: quietStep_def)

lemma handleGenerateNotes_quiet:
  assumes "transcript recording = Some t" and "t \<noteq> []"
  shows "quietStep w (snd (handleGenerateNotes env recording w))"
proof (cases "id_key recording")
  case None
  then show ?thesis by (simp add: handleGenerateNotes_def quietStep_refl)
next
  case (Some rid)
  show ?thesis
  proof (cases "rid = 0")
    case True
    with Some show ?thesis by (simp add: handleGenerateNotes_def quietStep_refl)
  next
    case False
    obtain res w1 where tb: "tryBlock env recording rid w = (res, w1)" by (cases "tryBlock env recording rid w")
    with tryBlock_quiet [OF assms, of w env rid] have q1: "quietStep w w1" by simp
    show ?thesis
    proof (cases res)
      case (Inr u)
      with Some False tb have "snd (handleGenerateNotes env recording w)
          = w1\<lparr>ui := (ui w1)\<lparr>isProcessing := False\<rparr>\<rparr>"
        by (simp add: handleGenerateNotes_def)
      with q1 show ?thesis by (simp add: quietStep_ui)
    next
      case (Inl e)
      obtain res2 w2 where c: "catchBlock rid e w1 = (res2, w2)" by (cases "catchBlock rid e w1")
      with catchBlock_quiet [of w1 rid e] have "quietStep w1 w2" by simp
      with q1 have "quietStep w w2" by (rule quietStep_trans)
      moreover from Some False tb Inl c have "snd (handleGenerateNotes env recording w)
          = w2\<lparr>ui := (ui w2)\<lparr>isProcessing := False\<rparr>\<rparr>"
        by (simp add: handleGenerateNotes_def)
      ultimately show ?thesis by (simp add: quietStep_ui)
    qed
  qed
qed

lemma success_try:
  assumes "id_key recording = Some rid" and "rid \<noteq> 0"
    and "transcript recording = Some t" and "t \<noteq> []"
    and "\<not> failing (database w)" and "anthropicKey env = Some key" and "key \<noteq> []"
    and "trim t \<noteq> []" and "claude env = Responds content"
    and "trim (blockTexts content) \<noteq> []"
  shows "fst (handleGenerateNotes env recording w) = Inr ()"
    and "events (snd (handleGenerateNotes env recording w))
      = events w @
        [DbUpdate rid (noUpdates\<lparr>u_status := Some S_generating_notes\<rparr>),
         ClaudeCall t key,
         DbUpdate rid (noUpdates\<lparr>u_notesText := Some (Some (trim (blockTexts content))),
                                u_status := Some S_complete\<rparr>)]"
proof -
  from assms(10) have nb: "blockTexts content \<noteq> []" by (auto simp: trim_def)
  from assms nb show "fst (handleGenerateNotes env recording w) = Inr ()"
   by (simp add: handleGenerateNotes_def tryBlock_def catchBlock_def notesStep_def
  bindIO_def returnIO_def throwIO_def setIsProcessing_def setProcessingError_def
  setShowNotes_def updateRecordingIO_def generateNotesIO_def
  updateRecording_def table_update_def 
  generateNotes_def generateNotes_try_def 
  orEmpty_def Let_def)
  from assms nb show "events (snd (handleGenerateNotes env recording w))
      = events w @
        [DbUpdate rid (noUpdates\<lparr>u_status := Some S_generating_notes\<rparr>),
         ClaudeCall t key,
         DbUpdate rid (noUpdates\<lparr>u_notesText := Some (Some (trim (blockTexts content))),
                                u_status := Some S_complete\<rparr>)]"
   by (simp add: handleGenerateNotes_def tryBlock_def catchBlock_def notesStep_def
  bindIO_def returnIO_def throwIO_def setIsProcessing_def setProcessingError_def
  setShowNotes_def updateRecordingIO_def generateNotesIO_def
  updateRecording_def table_update_def 
  generateNotes_def generateNotes_try_def 
  orEmpty_def Let_def)
qed

lemma success_row:
  assumes "id_key recording = Some rid" and "rid \<noteq> 0"
    and "transcript recording = Some t" and "t \<noteq> []"
    and "\<not> failing (database w)" and "anthropicKey env = Some key" and "key \<noteq> []"
    and "trim t \<noteq> []" and "claude env = Responds content"
    and "trim (blockTexts content) \<noteq> []"
    and "getRecording (database w) rid = Inr (Some r)"
  shows "getRecording (database (snd (handleGenerateNotes env recording w))) rid
           = Inr (Some (r\<lparr>notesText := Some (trim (blockTexts content)), status := S_complete\<rparr>))"
proof -
  from assms(10) have nb: "blockTexts content \<noteq> []" by (auto simp: trim_def)
  have twice: "find (\<lambda>r. id_key r = Some rid)
     (map (\<lambda>r. if id_key r = Some rid then applyUpdates u2 r else r)
       (map (\<lambda>r. if id_key r = Some rid then applyUpdates u1 r else r) rs))
     = map_option (\<lambda>r. applyUpdates u2 (applyUpdates u1 r)) (find (\<lambda>r. id_key r = Some rid) rs)"
    for u1 u2 rs
    by (simp only: find_update_same option.map_comp comp_def)
  from assms nb show ?thesis
   by (simp add: handleGenerateNotes_def tryBlock_def catchBlock_def notesStep_def
  bindIO_def returnIO_def throwIO_def setIsProcessing_def setProcessingError_def
  setShowNotes_def updateRecordingIO_def generateNotesIO_def
  updateRecording_def table_update_def getRecording_def table_get_def
  generateNotes_def generateNotes_try_def twice applyUpdates_def noUpdates_def
  orEmpty_def Let_def del: map_map)
qed


text \<open>
  C2. Let the recording have a truthy id and a non-empty transcript. Then a run of
  \<open>handleGenerateNotes\<close> makes no call to the transcription client, sends no update
  with status \<^verbatim>\<open>transcribing\<close> and none that sets a transcript, and leaves every stored
  transcript as it was. Its first step is note generation: when IndexedDB works, the
  Anthropic key is configured, the transcript is not blank and the notes provider
  answers with text that is not blank, the run completes, its effects are, in this
  order, the update to \<^verbatim>\<open>generating_notes\<close>, the call to the notes provider with the
  stored transcript, and the update that sets the notes and status \<^verbatim>\<open>complete\<close>, and the
  stored record ends with these notes and this status.
\<close>

theorem transcript_present_skips_transcription:
  assumes "id_key recording = Some rid" and "rid \<noteq> 0"
    and "transcript recording = Some t" and "t \<noteq> []"
  shows "(\<exists>new. events (snd (handleGenerateNotes env recording w)) = events w @ new \<and>
               list_all quietEvent new) \<and>
         map transcript (recordings (database (snd (handleGenerateNotes env recording w))))
           = map transcript (recordings (database w)) \<and>
         (\<not> failing (database w) \<and> anthropicKey env = Some key \<and> key \<noteq> [] \<and>
          trim t \<noteq> [] \<and> claude env = Responds content \<and> trim (blockTexts content) \<noteq> [] \<longrightarrow>
            fst (handleGenerateNotes env recording w) = Inr () \<and>
            events (snd (handleGenerateNotes env recording w))
              = events w @
                [DbUpdate rid (noUpdates\<lparr>u_status := Some S_generating_notes\<rparr>),
                 ClaudeCall t key,
                 DbUpdate rid
                   (noUpdates\<lparr>u_notesText := Some (Some (trim (blockTexts content))),
                              u_status := Some S_complete\<rparr>)] \<and>
            (\<forall>r. getRecording (database w) rid = Inr (Some r) \<longrightarrow>
               getRecording (database (snd (handleGenerateNotes env recording w))) rid
                 = Inr (Some (r\<lparr>notesText := Some (trim (blockTexts content)),
                                status := S_complete\<rparr>))))"
proof (intro conjI impI allI)
  from handleGenerateNotes_quiet [OF assms(3,4), of w env]
  show "\<exists>new. events (snd (handleGenerateNotes env recording w)) = events w @ new \<and>
      list_all quietEvent new"
    and "map transcript (recordings (database (snd (handleGenerateNotes env recording w))))
      = map transcript (recordings (database w))"
    by (simp_all add: quietStep_def)
next
  assume ok: "\<not> failing (database w) \<and> anthropicKey env = Some key \<and> key \<noteq> [] \<and>
      trim t \<noteq> [] \<and> claude env = Responds content \<and> trim (blockTexts content) \<noteq> []"
  with assms show "fst (handleGenerateNotes env recording w) = Inr ()"
    by (intro success_try(1) [of recording rid t w env key content]) simp_all
  from ok assms show "events (snd (handleGenerateNotes env recording w))
      = events w @
        [DbUpdate rid (noUpdates\<lparr>u_status := Some S_generating_notes\<rparr>),
         ClaudeCall t key,
         DbUpdate rid (noUpdates\<lparr>u_notesText := Some (Some (trim (blockTexts content))),
                                u_status := Some S_complete\<rparr>)]"
    by (intro success_try(2) [of recording rid t w env key content]) simp_all
  fix r assume "getRecording (database w) rid = Inr (Some r)"
  with ok assms show "getRecording (database (snd (handleGenerateNotes env recording w))) rid
      = Inr (Some (r\<lparr>notesText := Some (trim (blockTexts content)), status := S_complete\<rparr>))"
    by (intro success_row [of recording rid t w env key content r]) simp_all
qed


theorem transcript_present_skips_transcription_witness:
  "id_key transcribedRecording = Some 1 \<and>
   transcript transcribedRecording = Some ''Hello world'' \<and>
   status transcribedRecording = S_transcribed \<and>
   fst (handleGenerateNotes scenarioB transcribedRecording transcribedWorld) = Inr () \<and>
   events (snd (handleGenerateNotes scenarioB transcribedRecording transcribedWorld))
     = [DbUpdate 1 (noUpdates\<lparr>u_status := Some S_generating_notes\<rparr>),
        ClaudeCall ''Hello world'' ''sk-ant-test'',
        DbUpdate 1
          (noUpdates\<lparr>u_notesText := Some (Some (''## Summary'' @ [CHR 0x0A] @ ''- point'')),
                     u_status := Some S_complete\<rparr>)] \<and>
   getRecording
       (database (snd (handleGenerateNotes scenarioB transcribedRecording transcribedWorld))) 1
     = Inr (Some (transcribedRecording
                    \<lparr>notesText := Some (''## Summary'' @ [CHR 0x0A] @ ''- point''),
                     status := S_complete\<rparr>))"
proof -
  let ?notes = "''## Summary'' @ [CHR 0x0A] @ ''- point''"
  have key: "id_key transcribedRecording = Some 1" by (simp add: sample_defs)
  have nz: "(1::nat) \<noteq> 0" by simp
  have tr: "transcript transcribedRecording = Some ''Hello world''" by (simp add: sample_defs)
  have st: "status transcribedRecording = S_transcribed" by (simp add: sample_defs)
  have ne: "''Hello world'' \<noteq> []" by simp
  have ok: "\<not> failing (database transcribedWorld)" by (simp add: sample_defs)
  have ak: "anthropicKey scenarioB = Some ''sk-ant-test''" by (simp add: sample_defs)
  have kne: "''sk-ant-test'' \<noteq> []" by simp
  have tt: "trim ''Hello world'' \<noteq> []" by (simp add: trim_def isWhiteSpace_def)
  have cl: "claude scenarioB = Responds [TextBlock ?notes]" by (simp add: sample_defs)
  have tn: "trim (blockTexts [TextBlock ?notes]) = ?notes"
    by (simp add: trim_def isWhiteSpace_def)
  then have tnn: "trim (blockTexts [TextBlock ?notes]) \<noteq> []" by simp
  have ev: "events transcribedWorld = []" by (simp add: sample_defs)
  have row: "getRecording (database transcribedWorld) 1 = Inr (Some transcribedRecording)"
    by (simp add: getRecording_def table_get_def sample_defs)
  note at_sample = transcript_present_skips_transcription
    [OF key nz tr ne, of scenarioB transcribedWorld "''sk-ant-test''" "[TextBlock ?notes]"]
  from at_sample ok ak kne tt cl tnn
  have "fst (handleGenerateNotes scenarioB transcribedRecording transcribedWorld) = Inr () \<and>
      events (snd (handleGenerateNotes scenarioB transcribedRecording transcribedWorld))
        = events transcribedWorld @
          [DbUpdate 1 (noUpdates\<lparr>u_status := Some S_generating_notes\<rparr>),
           ClaudeCall ''Hello world'' ''sk-ant-test'',
           DbUpdate 1
             (noUpdates\<lparr>u_notesText := Some (Some (trim (blockTexts [TextBlock ?notes]))),
                        u_status := Some S_complete\<rparr>)] \<and>
      (\<forall>r. getRecording (database transcribedWorld) 1 = Inr (Some r) \<longrightarrow>
         getRecording
             (database (snd (handleGenerateNotes scenarioB transcribedRecording transcribedWorld))) 1
           = Inr (Some (r\<lparr>notesText := Some (trim (blockTexts [TextBlock ?notes])),
                          status := S_complete\<rparr>)))"
    by blast
  with row ev tn key tr st show ?thesis by (simp only: append_Nil simp_thms)
qed

section \<open>Capture service: the reported duration\<close>

lemma mathRound_millis: "mathRound (real_of_int n / 1000) = (n + 500) div 1000"
proof -
  have "real_of_int n / 1000 + 1 / 2 = real_of_int (n + 500) / real_of_int 1000" by simp
  then have "mathRound (real_of_int n / 1000) = \<lfloor>real_of_int (n + 500) / real_of_int 1000\<rfloor>"
    by (simp only: mathRound_def)
  then show ?thesis by (simp only: floor_divide_of_int_eq)
qed

lemma pauseResumePairs_recording:
  assumes "mediaRecorder r = Some mr" and "mr_state mr = RS_recording"
  shows "fst (pauseResumePairs ps r) = Inr () \<and>
         startTime (snd (pauseResumePairs ps r)) = startTime r \<and>
         pausedDuration (snd (pauseResumePairs ps r)) = pausedDuration r + pausedTotal ps \<and>
         audioChunks (snd (pauseResumePairs ps r)) = audioChunks r \<and>
         mediaRecorder (snd (pauseResumePairs ps r)) = Some mr"
  using assms
proof (induction ps arbitrary: r)
  case Nil
  then show ?case by (simp add: pausedTotal_def)
next
  case (Cons pq ps)
  obtain p q where pq: "pq = (p, q)" by (cases pq)
  let ?r2 = "r\<lparr>pauseStartTime := p, mediaRecorder := Some (mr\<lparr>mr_state := RS_paused\<rparr>),
      pausedDuration := pausedDuration r + (q - p), mediaRecorder := Some mr\<rparr>"
  from Cons.prems(2) have same_mr: "mr\<lparr>mr_state := RS_recording\<rparr> = mr" by (cases mr) simp
  from Cons.prems have step: "pauseResumePairs (pq # ps) r = pauseResumePairs ps ?r2"
    by (simp add: pq pause_def resume_def same_mr)
  have "mediaRecorder ?r2 = Some mr" by simp
  from Cons.IH [OF this Cons.prems(2)] show ?case
    unfolding step by (simp add: pq pausedTotal_def)
qed

text \<open>
  A session in which every pause is followed by its resume: \<open>start\<close> at time \<open>t0\<close>, any
  number of such pairs, then \<open>stop\<close> whose handler runs at time \<open>ts\<close>. Every call
  succeeds, and the duration reported is the elapsed time \<open>ts - t0\<close> less the total time
  spent paused in these pairs, in milliseconds, divided by 1000 and rounded by
  \<^verbatim>\<open>Math.round\<close> to whole seconds.
\<close>

lemma stop_duration_excludes_pauses:
  assumes "mediaRecorder r = Some mr" and "mr_state mr = RS_inactive"
  shows "fst (start t0 r) = Inr () \<and>
         fst (pauseResumePairs ps (snd (start t0 r))) = Inr () \<and>
         (\<exists>res. fst (stop ts lastChunk (snd (pauseResumePairs ps (snd (start t0 r)))))
                  = Resolved res \<and>
                res_duration res = mathRound (real_of_int ((ts - t0) - pausedTotal ps) / 1000) \<and>
                res_duration res = ((ts - t0) - pausedTotal ps + 500) div 1000)"
proof -
  let ?mr = "mr\<lparr>mr_state := RS_recording\<rparr>"
  let ?r1 = "snd (start t0 r)"
  from assms have started: "fst (start t0 r) = Inr ()" "mediaRecorder ?r1 = Some ?mr"
    "startTime ?r1 = t0" "pausedDuration ?r1 = 0"
    by (simp_all add: start_def)
  have rec: "mr_state ?mr = RS_recording" by simp
  let ?r2 = "snd (pauseResumePairs ps ?r1)"
  from pauseResumePairs_recording [OF started(2) rec, of ps] started
  have run: "fst (pauseResumePairs ps ?r1) = Inr ()" "startTime ?r2 = t0"
    "pausedDuration ?r2 = pausedTotal ps" "mediaRecorder ?r2 = Some ?mr"
    by simp_all
  have "\<exists>res. fst (stop ts lastChunk ?r2) = Resolved res \<and>
      res_duration res = mathRound (real_of_int ((ts - t0) - pausedTotal ps) / 1000)"
    using run by (simp add: stop_def dataavailable_def Let_def)
  with started(1) run(1) show ?thesis by (simp only: mathRound_millis simp_thms)
qed

text \<open>
  A pause that is still open when \<open>stop\<close> is called has not reached \<open>pausedDuration\<close>:
  the time since that pause counts into the duration.
\<close>

lemma stop_while_paused:
  assumes "mediaRecorder r = Some mr" and "mr_state mr = RS_recording"
  shows "\<exists>res. fst (stop ts lastChunk (snd (pause p r))) = Resolved res \<and>
           res_duration res = mathRound (real_of_int ((ts - startTime r) - pausedDuration r) / 1000)"
  using assms by (simp add: pause_def stop_def dataavailable_def Let_def)

lemma stop_duration_scenarioE:
  "mediaRecorder readyRecorder
     = Some \<lparr>mr_state = RS_inactive, mr_mimeType = ''audio/webm;codecs=opus''\<rparr> \<and>
   pausedTotal [(5000, 8000)] = 3000 \<and>
   (\<exists>res. fst (stop 18000 \<lparr>blob_size = 0, blob_type = []\<rparr>
                  (snd (pauseResumePairs [(5000, 8000)] (snd (start 0 readyRecorder)))))
            = Resolved res \<and>
          res_duration res = 15)"
proof -
  let ?mr = "\<lparr>mr_state = RS_inactive, mr_mimeType = ''audio/webm;codecs=opus''\<rparr>"
  have ready: "mediaRecorder readyRecorder = Some ?mr"
    by (simp add: readyRecorder_def initialize_def mimeTypes_def newAudioRecorder_def)
  have inactive: "mr_state ?mr = RS_inactive" by simp
  have total: "pausedTotal [(5000, 8000)] = 3000" by (simp add: pausedTotal_def)
  from stop_duration_excludes_pauses
    [OF ready inactive, of 0 "[(5000, 8000)]" 18000 "\<lparr>blob_size = 0, blob_type = []\<rparr>"]
  obtain res where
    "fst (stop 18000 \<lparr>blob_size = 0, blob_type = []\<rparr>
            (snd (pauseResumePairs [(5000, 8000)] (snd (start 0 readyRecorder)))))
       = Resolved res"
    and "res_duration res = ((18000 - 0) - pausedTotal [(5000, 8000)] + 500) div 1000"
    by blast
  with ready total show ?thesis by simp
qed

text \<open>
  C8 at a failing input. The recorder is started at time 0 and paused after 15 seconds;
  3 seconds later, still paused, it is stopped, as the controls allow. Only \<open>resume\<close>
  adds a pause to \<open>pausedDuration\<close>, so the open pause is not excluded: \<open>stop\<close> reports
  18 seconds for 15 seconds of capture. Had the recorder been resumed at that moment and
  then stopped, it would report 15.
\<close>

theorem stop_while_paused_counts_the_pause:
  "mediaRecorder readyRecorder
     = Some \<lparr>mr_state = RS_inactive, mr_mimeType = ''audio/webm;codecs=opus''\<rparr> \<and>
   fst (start 0 readyRecorder) = Inr () \<and>
   fst (pause 15000 (snd (start 0 readyRecorder))) = Inr () \<and>
   fst (stop 18000 \<lparr>blob_size = 0, blob_type = []\<rparr>
          (snd (pause 15000 (snd (start 0 readyRecorder)))))
     = Resolved \<lparr>res_blob = \<lparr>blob_size = 0, blob_type = ''audio/webm;codecs=opus''\<rparr>,
                 res_duration = 18, res_mimeType = ''audio/webm;codecs=opus''\<rparr> \<and>
   fst (stop 18000 \<lparr>blob_size = 0, blob_type = []\<rparr>
          (snd (resume 18000 (snd (pause 15000 (snd (start 0 readyRecorder)))))))
     = Resolved \<lparr>res_blob = \<lparr>blob_size = 0, blob_type = ''audio/webm;codecs=opus''\<rparr>,
                 res_duration = 15, res_mimeType = ''audio/webm;codecs=opus''\<rparr>"
proof -
  have seconds: "mathRound 18 = 18" "mathRound 15 = 15"
    by (simp_all add: mathRound_def floor_eq_iff)
  show ?thesis
    by (simp add: readyRecorder_def initialize_def mimeTypes_def newAudioRecorder_def
        start_def pause_def resume_def stop_def dataavailable_def concatBlobs_def seconds
        Let_def)
qed

end
